theory Spec2Isabelle
  imports Complex_Main "HOL-Library.Word"
begin

unbundle bit_operations_syntax

section \<open>Values of the listening-history tables\<close>

text \<open>
  A Python \<open>str\<close> is a sequence of Unicode code points; the feature synthesizer
  encodes it to bytes, so the code points are kept as numbers.  A cell of the
  \<open>spotify_track_uri\<close> column is whatever the JSON record held under that key:
  nothing (the key is absent, pandas stores NaN), \<open>null\<close>, a number or a string.
\<close>

type_synonym pystr = "nat list"

datatype json_val = Missing | Null | Num int | Str pystr

text \<open>
  \<open>str.encode()\<close>: UTF-8.  A lone surrogate (U+D800..U+DFFF, which \<open>json.load\<close>
  can produce from an escape) raises \<open>UnicodeEncodeError\<close>; that is the \<open>None\<close> here.
\<close>

definition utf8_char :: "nat \<Rightarrow> 8 word list option" where
  "utf8_char c =
     (if c < 0x80 then Some [of_nat c]
      else if c < 0x800 then Some [of_nat (0xC0 + c div 64), of_nat (0x80 + c mod 64)]
      else if 0xD800 \<le> c \<and> c < 0xE000 then None
      else if c < 0x10000 then
        Some [of_nat (0xE0 + c div 4096), of_nat (0x80 + (c div 64) mod 64),
              of_nat (0x80 + c mod 64)]
      else if c < 0x110000 then
        Some [of_nat (0xF0 + c div 262144), of_nat (0x80 + (c div 4096) mod 64),
              of_nat (0x80 + (c div 64) mod 64), of_nat (0x80 + c mod 64)]
      else None)"

fun encode :: "pystr \<Rightarrow> 8 word list option" where
  "encode [] = Some []"
| "encode (c # cs) =
     (case utf8_char c of
        None \<Rightarrow> None
      | Some bs \<Rightarrow> (case encode cs of None \<Rightarrow> None | Some rest \<Rightarrow> Some (bs @ rest)))"

text \<open>\<open>int.from_bytes(b, 'big')\<close>: an unbounded integer.\<close>

definition int_from_bytes :: "8 word list \<Rightarrow> int" where
  "int_from_bytes bs = foldl (\<lambda>acc b. acc * 256 + uint b) 0 bs"

section \<open>The generator behind \<open>np.random\<close>\<close>

text \<open>
  \<open>np.random.seed\<close> and \<open>np.random.uniform\<close> act on numpy's global legacy
  generator, a Mersenne Twister MT19937: 624 words of 32 bits and a position.
  Seeding with an integer below \<open>2^32\<close> fills the key with Knuth's recurrence;
  a double is made of two tempered outputs, 27 and 26 bits of them.
  The doubles are modelled as exact rationals, and the decimal literals of the source
  as the fractions they denote: the rounding of binary floating point is left out.
\<close>

record mt19937_state =
  key :: "32 word list"
  pos :: nat

definition MATRIX_A :: "32 word" where "MATRIX_A = 0x9908b0df"
definition UPPER_MASK :: "32 word" where "UPPER_MASK = 0x80000000"
definition LOWER_MASK :: "32 word" where "LOWER_MASK = 0x7fffffff"

fun seed_loop :: "nat \<Rightarrow> 32 word \<Rightarrow> nat \<Rightarrow> 32 word list" where
  "seed_loop 0 s p = []"
| "seed_loop (Suc n) s p =
     s # seed_loop n (1812433253 * (s XOR drop_bit 30 s) + of_nat p + 1) (Suc p)"

definition mt19937_seed :: "32 word \<Rightarrow> mt19937_state" where
  "mt19937_seed s = \<lparr>key = seed_loop 624 s 0, pos = 624\<rparr>"

definition twist :: "32 word \<Rightarrow> 32 word \<Rightarrow> 32 word \<Rightarrow> 32 word" where
  "twist a b c =
     (let y = (a AND UPPER_MASK) OR (b AND LOWER_MASK)
      in c XOR drop_bit 1 y XOR (if bit y 0 then MATRIX_A else 0))"

fun gen_loop :: "nat \<Rightarrow> nat \<Rightarrow> 32 word list \<Rightarrow> 32 word list" where
  "gen_loop 0 i k = k"
| "gen_loop (Suc n) i k =
     gen_loop n (Suc i)
       (k[i := twist (k ! i) (k ! ((i + 1) mod 624)) (k ! ((i + 397) mod 624))])"

definition mt19937_gen :: "mt19937_state \<Rightarrow> mt19937_state" where
  "mt19937_gen st = \<lparr>key = gen_loop 624 0 (key st), pos = 0\<rparr>"

definition temper :: "32 word \<Rightarrow> 32 word" where
  "temper y0 =
     (let y1 = y0 XOR drop_bit 11 y0;
          y2 = y1 XOR (push_bit 7 y1 AND 0x9d2c5680);
          y3 = y2 XOR (push_bit 15 y2 AND 0xefc60000)
      in y3 XOR drop_bit 18 y3)"

definition mt19937_next :: "mt19937_state \<Rightarrow> 32 word \<times> mt19937_state" where
  "mt19937_next st =
     (let st' = (if pos st = 624 then mt19937_gen st else st)
      in (temper (key st' ! pos st'), st'\<lparr>pos := pos st' + 1\<rparr>))"

definition mt19937_next_double :: "mt19937_state \<Rightarrow> rat \<times> mt19937_state" where
  "mt19937_next_double st =
     (let (w1, st1) = mt19937_next st;
          (w2, st2) = mt19937_next st1;
          a = uint (drop_bit 5 w1);
          b = uint (drop_bit 6 w2)
      in ((of_int a * 67108864 + of_int b) / 9007199254740992, st2))"

text \<open>
  \<open>np.random.seed(seed)\<close> replaces the whole global state; \<open>np.random.uniform(low, high)\<close>
  is \<open>low + (high - low) * u\<close> for the next double \<open>u\<close>.
\<close>

definition np_random_seed :: "32 word \<Rightarrow> mt19937_state \<Rightarrow> mt19937_state" where
  "np_random_seed s g = mt19937_seed s"

definition np_random_uniform :: "rat \<Rightarrow> rat \<Rightarrow> mt19937_state \<Rightarrow> rat \<times> mt19937_state" where
  "np_random_uniform low high g =
     (let (u, g') = mt19937_next_double g in (low + (high - low) * u, g'))"

section \<open>Feature synthesis (\<open>add_audio_features\<close>)\<close>

record feature =
  uri :: pystr
  danceability :: rat
  energy :: rat
  valence :: rat
  tempo :: rat
  speechiness :: rat
  acousticness :: rat
  instrumentalness :: rat

text \<open>\<open>seed = int.from_bytes(uri.encode(), 'big') % (2**32)\<close>\<close>

definition uri_seed :: "8 word list \<Rightarrow> 32 word" where
  "uri_seed bs = word_of_int (int_from_bytes bs mod 2 ^ 32)"

text \<open>The dictionary literal: seven draws from the global generator, in this order.\<close>

definition draw_features :: "pystr \<Rightarrow> mt19937_state \<Rightarrow> feature \<times> mt19937_state" where
  "draw_features u g0 =
     (let (d, g1) = np_random_uniform (2 / 10) (9 / 10) g0;
          (e, g2) = np_random_uniform (1 / 10) 1 g1;
          (v, g3) = np_random_uniform (1 / 10) (9 / 10) g2;
          (t, g4) = np_random_uniform 70 180 g3;
          (s, g5) = np_random_uniform (2 / 100) (2 / 10) g4;
          (a, g6) = np_random_uniform 0 1 g5;
          (i, g7) = np_random_uniform 0 (8 / 10) g6
      in (\<lparr>uri = u, danceability = d, energy = e, valence = v, tempo = t,
            speechiness = s, acousticness = a, instrumentalness = i\<rparr>, g7))"

text \<open>
  The body of the \<open>try\<close> for one cell of \<open>unique_tracks\<close>: \<open>Inr (Some f)\<close> when a
  feature row is appended, \<open>Inr None\<close> when the cell is skipped by the \<open>if\<close>,
  \<open>Inl ()\<close> when \<open>encode\<close> raises and the \<open>except\<close> clause issues its warning.
\<close>

definition track_features ::
  "json_val \<Rightarrow> mt19937_state \<Rightarrow> (unit + feature option) \<times> mt19937_state" where
  "track_features v g =
     (case v of
        Str u \<Rightarrow>
          if u \<noteq> [] then
            (case encode u of
               None \<Rightarrow> (Inl (), g)
             | Some bs \<Rightarrow>
                 (let (f, g') = draw_features u (np_random_seed (uri_seed bs) g)
                  in (Inr (Some f), g')))
          else (Inr None, g)
      | _ \<Rightarrow> (Inr None, g))"

text \<open>
  The \<open>for\<close> loop over \<open>unique_tracks\<close>, threading the global generator:
  the feature rows appended, the number of warnings, the generator afterwards.
\<close>

fun features_loop ::
  "json_val list \<Rightarrow> mt19937_state \<Rightarrow> feature list \<times> nat \<times> mt19937_state" where
  "features_loop [] g = ([], 0, g)"
| "features_loop (v # vs) g =
     (let (r, g') = track_features v g;
          (fs, w, g'') = features_loop vs g'
      in (case r of
            Inl _ \<Rightarrow> (fs, Suc w, g'')
          | Inr None \<Rightarrow> (fs, w, g'')
          | Inr (Some f) \<Rightarrow> (f # fs, w, g'')))"

definition audio_features :: "json_val list \<Rightarrow> mt19937_state \<Rightarrow> feature list" where
  "audio_features vs g = fst (features_loop vs g)"

text \<open>\<open>Series.unique()\<close>: the distinct values in order of first appearance.\<close>

fun unique_acc :: "'a list \<Rightarrow> 'a list \<Rightarrow> 'a list" where
  "unique_acc seen [] = rev seen"
| "unique_acc seen (x # xs) =
     (if x \<in> set seen then unique_acc seen xs else unique_acc (x # seen) xs)"

definition unique :: "'a list \<Rightarrow> 'a list" where
  "unique xs = unique_acc [] xs"

text \<open>
  \<open>left.merge(right, how='left')\<close> on one key: every left row, in order, once per
  right row with an equal key, and once with an empty right side when there is none.
\<close>

definition merge_left ::
  "('a \<Rightarrow> 'k) \<Rightarrow> ('b \<Rightarrow> 'k) \<Rightarrow> 'a list \<Rightarrow> 'b list \<Rightarrow> ('a \<times> 'b option) list" where
  "merge_left kl kr ls rs =
     concat (map (\<lambda>l. case filter (\<lambda>r. kr r = kl l) rs of
                          [] \<Rightarrow> [(l, None)]
                        | ms \<Rightarrow> map (\<lambda>r. (l, Some r)) ms) ls)"

text \<open>
  A row of the canonical table; only the columns the modelled functions read.
  \<open>ts\<close> is \<open>None\<close> where the column holds \<open>NaT\<close>; \<open>hour\<close> is what \<open>ts.dt.hour\<close>
  gives for an instant.
\<close>

record timestamp =
  year :: nat
  month :: nat
  day :: nat
  hour :: nat
  minute :: nat
  second :: nat

record event =
  ts :: "timestamp option"
  ms_played :: int
  minutes_played :: rat
  spotify_track_uri :: json_val

text \<open>
  The table \<open>add_audio_features\<close> returns: the one it was given (no feature columns),
  or the merged one, where a row without a matching feature row has empty feature cells.
\<close>

datatype table = Plain "event list" | Enriched "(event \<times> feature option) list"

definition has_uri_column :: "event list \<Rightarrow> bool" where
  "has_uri_column df = (\<exists>r \<in> set df. spotify_track_uri r \<noteq> Missing)"

definition add_audio_features :: "event list \<Rightarrow> mt19937_state \<Rightarrow> table \<times> mt19937_state" where
  "add_audio_features df g =
     (if \<not> has_uri_column df then (Plain df, g)
      else
        (let unique_tracks = unique (map spotify_track_uri df);
             (fs, w, g') = features_loop unique_tracks g
         in if fs \<noteq> []
            then (Enriched (merge_left spotify_track_uri (\<lambda>f. Str (uri f)) df fs), g')
            else (Plain df, g')))"

section \<open>Ingestion (\<open>process_files\<close>)\<close>

text \<open>The exceptions that leave the modelled functions uncaught.\<close>

datatype exception = UnicodeDecodeError | RecursionError | TypeError | ValueError | KeyError

text \<open>
  A cell of the \<open>ts\<close> column, by what \<open>pd.to_datetime\<close> makes of it in its column:
  the record has no \<open>ts\<close> key (pandas stores NaN there); it holds \<open>null\<close> or the
  empty string; it holds a string that parses to an instant; it holds a string that
  \<open>pd.to_datetime\<close> rejects with a \<open>ValueError\<close>.  The first two become \<open>NaT\<close>.
  Every record is taken to have an integer under \<open>ms_played\<close>.
\<close>

datatype ts_cell = No_key | Blank | Parses timestamp | Rejected

record raw_record =
  raw_ts :: ts_cell
  raw_ms_played :: int
  raw_uri :: json_val

text \<open>
  An uploaded file is its name and what \<open>json.load\<close> makes of it: it raises
  \<open>JSONDecodeError\<close>; it raises another exception (\<open>UnicodeDecodeError\<close> on bytes
  that are not UTF-8, \<open>RecursionError\<close> on nesting too deep); it returns a scalar
  (a number, \<open>true\<close>, \<open>false\<close>, \<open>null\<close>), on which \<open>all_data.extend\<close> raises
  \<open>TypeError\<close>; or it returns an array of objects, the records.  Top-level strings and
  objects, and arrays that hold anything but objects, are not modelled.
\<close>

datatype load_result = JSONDecodeError | Raises exception | Scalar | Loaded "raw_record list"

record uploaded_file =
  name :: string
  content :: load_result

text \<open>
  How \<open>process_files\<close> can end without a table: \<open>st.error\<close> naming the file and
  \<open>return None\<close>; \<open>st.error\<close> about no data and \<open>return None\<close>; or an exception
  that nothing catches.  The \<open>except\<close> clause catches \<open>json.JSONDecodeError\<close> only.
\<close>

datatype failure = Error_reading string | No_valid_data | Uncaught exception

fun load_files :: "uploaded_file list \<Rightarrow> raw_record list \<Rightarrow> failure + raw_record list" where
  "load_files [] all_data = Inr all_data"
| "load_files (file # files) all_data =
     (case content file of
        JSONDecodeError \<Rightarrow> Inl (Error_reading (name file))
      | Raises e \<Rightarrow> Inl (Uncaught e)
      | Scalar \<Rightarrow> Inl (Uncaught TypeError)
      | Loaded data \<Rightarrow> load_files files (all_data @ data))"

text \<open>
  \<open>pd.to_datetime(df['ts'])\<close>: it raises as soon as one cell is rejected, and
  otherwise returns the column of instants, \<open>NaT\<close> for the cells without a value.
\<close>

fun parsed :: "ts_cell \<Rightarrow> timestamp option" where
  "parsed (Parses t) = Some t"
| "parsed c = None"

definition to_datetime :: "ts_cell list \<Rightarrow> timestamp option list option" where
  "to_datetime col = (if Rejected \<in> set col then None else Some (map parsed col))"

definition canonical_row :: "raw_record \<Rightarrow> timestamp option \<Rightarrow> event" where
  "canonical_row r t =
     \<lparr>ts = t, ms_played = raw_ms_played r,
      minutes_played = of_int (raw_ms_played r) / (1000 * 60),
      spotify_track_uri = raw_uri r\<rparr>"

text \<open>
  \<open>df['ts']\<close> raises \<open>KeyError\<close> when no record has the key, since the frame then has
  no such column.
\<close>

definition process_files :: "uploaded_file list \<Rightarrow> failure + event list" where
  "process_files uploaded_files =
     (case load_files uploaded_files [] of
        Inl e \<Rightarrow> Inl e
      | Inr all_data \<Rightarrow>
          if all_data = [] then Inl No_valid_data
          else if list_all (\<lambda>r. raw_ts r = No_key) all_data then Inl (Uncaught KeyError)
          else
            (case to_datetime (map raw_ts all_data) of
               None \<Rightarrow> Inl (Uncaught ValueError)
             | Some tss \<Rightarrow> Inr (map2 canonical_row all_data tss)))"

section \<open>Aggregation (\<open>create_listening_clock\<close>, \<open>analyze_listening_patterns\<close>)\<close>

text \<open>
  \<open>df.groupby(k)[c].sum()\<close>: one entry per key that occurs, keys ascending.
  The result is a Series; its index is the hour, its position is the place in the list.
  The hour of \<open>NaT\<close> is NaN, and \<open>groupby\<close> drops the rows whose key is NaN.
\<close>

definition groupby_sum :: "(nat \<times> rat) list \<Rightarrow> (nat \<times> rat) list" where
  "groupby_sum kvs =
     map (\<lambda>k. (k, sum_list (map snd (filter (\<lambda>kv. fst kv = k) kvs))))
         (sort (remdups (map fst kvs)))"

definition hourly_stats :: "event list \<Rightarrow> (nat \<times> rat) list" where
  "hourly_stats df =
     groupby_sum (List.map_filter (\<lambda>r. map_option (\<lambda>t. (hour t, minutes_played r)) (ts r)) df)"

text \<open>
  \<open>all_hours.merge(hourly_stats, on='hour', how='left').fillna(0)\<close>: the rows of the
  listening clock, hour and minutes.
\<close>

definition create_listening_clock :: "event list \<Rightarrow> (nat \<times> rat) list" where
  "create_listening_clock df =
     map (\<lambda>(h, m). (h, case m of None \<Rightarrow> 0 | Some kv \<Rightarrow> snd kv))
         (merge_left id fst [0..<24] (hourly_stats df))"

text \<open>
  A numpy \<open>float64\<close>: a finite value (an exact rational here), or one of the special
  values that a division by zero gives instead of raising.
\<close>

datatype float64 = Finite rat | PosInf | NegInf | NaN

definition float_div :: "rat \<Rightarrow> rat \<Rightarrow> float64" where
  "float_div x y =
     (if y \<noteq> 0 then Finite (x / y)
      else if x = 0 then NaN else if 0 < x then PosInf else NegInf)"

fun float_times :: "float64 \<Rightarrow> rat \<Rightarrow> float64" where
  "float_times (Finite x) c = Finite (x * c)"
| "float_times PosInf c = (if 0 < c then PosInf else if c < 0 then NegInf else NaN)"
| "float_times NegInf c = (if 0 < c then NegInf else if c < 0 then PosInf else NaN)"
| "float_times NaN c = NaN"

definition series_sum :: "(nat \<times> rat) list \<Rightarrow> rat" where
  "series_sum s = sum_list (map snd s)"

definition time_blocks :: "(string \<times> nat \<times> nat) list" where
  "time_blocks =
     [(''early_morning'', 5, 8), (''work_hours'', 9, 17), (''evening'', 17, 22),
      (''late_night'', 22, 5)]"

text \<open>
  The \<open>hour\<close> column is an integer column when every row has an instant, and a float
  column as soon as one row holds \<open>NaT\<close>; the index of \<open>hourly_stats\<close> follows.
\<close>

definition float_index :: "event list \<Rightarrow> bool" where
  "float_index df = (\<exists>r \<in> set df. ts r = None)"

text \<open>
  \<open>hourly_stats[start:end]\<close> with integers slices a Series with an integer index by
  position, whatever the index holds: \<open>drop start (take end s)\<close>.  These are the
  percentages for a table whose index is an integer index; with a float index the
  slices raise nothing either, and their sums never leave the function (see below).
\<close>

definition block_minutes :: "(nat \<times> rat) list \<Rightarrow> nat \<Rightarrow> nat \<Rightarrow> rat" where
  "block_minutes s start end =
     (if start < end then series_sum (drop start (take end s))
      else series_sum (drop start s) + series_sum (take end s))"

definition block_percentages :: "event list \<Rightarrow> (string \<times> float64) list" where
  "block_percentages df =
     (let s = hourly_stats df; total_minutes = series_sum s
      in map (\<lambda>(block, start, end).
                (block, float_times (float_div (block_minutes s start end) total_minutes) 100))
             time_blocks)"

text \<open>\<open>Series.idxmax()\<close>: the index of the first largest value; \<open>ValueError\<close> on none.\<close>

fun idxmax :: "(nat \<times> rat) list \<Rightarrow> nat option" where
  "idxmax [] = None"
| "idxmax ((k, v) # s) =
     (case idxmax s of
        None \<Rightarrow> Some k
      | Some k' \<Rightarrow> if \<exists>v' \<in> set (map snd s). v < v' then Some k' else Some k)"

text \<open>
  The peak hour and the block percentages; the sentences picked by \<open>random.choice\<close>
  are left out.  After the percentages, \<open>idxmax\<close> raises \<open>ValueError\<close> when no row has
  an instant.  The first insight formats the peak hour with \<open>:02d\<close>: with a float index
  the peak hour is a float and the format raises \<open>ValueError\<close>.
\<close>

definition analyze_listening_patterns ::
  "event list \<Rightarrow> exception + nat \<times> (string \<times> float64) list" where
  "analyze_listening_patterns df =
     (let percentages = block_percentages df
      in case idxmax (hourly_stats df) of
           None \<Rightarrow> Inl ValueError
         | Some peak_hour \<Rightarrow>
             if float_index df then Inl ValueError else Inr (peak_hour, percentages))"

section \<open>Profile classification (\<open>analyze_music_profile\<close>)\<close>

text \<open>\<open>Series.mean()\<close> skips empty cells and is NaN when none is left.\<close>

definition series_mean :: "rat option list \<Rightarrow> float64" where
  "series_mean col =
     (let vals = List.map_filter id col
      in if vals = [] then NaN else Finite (sum_list vals / of_nat (length vals)))"

definition column :: "(feature \<Rightarrow> rat) \<Rightarrow> (event \<times> feature option) list \<Rightarrow> rat option list" where
  "column c rows = map (\<lambda>row. map_option c (snd row)) rows"

record features =
  mean_danceability :: float64
  mean_energy :: float64
  mean_valence :: float64
  mean_speechiness :: float64
  mean_acousticness :: float64
  mean_instrumentalness :: float64

text \<open>\<open>x > c\<close> on a \<open>float64\<close>: false for NaN.\<close>

fun gt :: "float64 \<Rightarrow> rat \<Rightarrow> bool" where
  "gt (Finite x) c = (c < x)"
| "gt PosInf c = True"
| "gt NegInf c = False"
| "gt NaN c = False"

datatype personality =
  Party_Starter | Soul_Searcher | Mood_Lifter | Lyric_Lover | Eclectic_Explorer

definition personality_of :: "features \<Rightarrow> personality" where
  "personality_of f =
     (if gt (mean_energy f) (7 / 10) \<and> gt (mean_danceability f) (6 / 10) then Party_Starter
      else if gt (mean_acousticness f) (6 / 10) \<and> gt (mean_instrumentalness f) (4 / 10)
        then Soul_Searcher
      else if gt (mean_valence f) (6 / 10) \<and> gt (mean_energy f) (5 / 10) then Mood_Lifter
      else if gt (mean_speechiness f) (4 / 10) then Lyric_Lover
      else Eclectic_Explorer)"

definition mean_features :: "(event \<times> feature option) list \<Rightarrow> features" where
  "mean_features rows =
     \<lparr>mean_danceability = series_mean (column danceability rows),
      mean_energy = series_mean (column energy rows),
      mean_valence = series_mean (column valence rows),
      mean_speechiness = series_mean (column speechiness rows),
      mean_acousticness = series_mean (column acousticness rows),
      mean_instrumentalness = series_mean (column instrumentalness rows)\<rparr>"

text \<open>
  The personality and the averaged features; the insight sentences are left out.
  A table without feature columns makes \<open>df['danceability']\<close> raise \<open>KeyError\<close>.
\<close>

definition analyze_music_profile :: "table \<Rightarrow> exception + personality \<times> features" where
  "analyze_music_profile df =
     (case df of
        Plain _ \<Rightarrow> Inl KeyError
      | Enriched rows \<Rightarrow>
          (let f = mean_features rows in Inr (personality_of f, f)))"

section \<open>Auxiliary notions: features by seed, draws, play counts\<close>

text \<open>
  The feature row of one cell on its own: for a non-empty string that encodes, the seven
  draws from a generator seeded with the seed of its bytes; nothing for any other cell.
\<close>

definition seeded_features :: "json_val \<Rightarrow> feature option" where
  "seeded_features v =
     (case v of
        Str u \<Rightarrow>
          if u = [] then None
          else map_option (\<lambda>bs. fst (draw_features u (mt19937_seed (uri_seed bs)))) (encode u)
      | _ \<Rightarrow> None)"

text \<open>The first \<open>n\<close> doubles of a generator.\<close>

fun doubles :: "nat \<Rightarrow> mt19937_state \<Rightarrow> rat list" where
  "doubles 0 g = []"
| "doubles (Suc n) g = (let (x, g') = mt19937_next_double g in x # doubles n g')"

text \<open>
  The first fourteen outputs after seeding need only the key words 0 to 14 and 397 to
  410 of the seeded key; \<open>first_outputs\<close> computes them from the first 411 key words.
  \<open>double_of_words\<close> is the double made of two outputs.
\<close>

definition outputs_from :: "32 word list \<Rightarrow> 32 word list" where
  "outputs_from p = map (\<lambda>j. temper (twist (p ! j) (p ! (j + 1)) (p ! (j + 397)))) [0..<14]"

definition first_outputs :: "32 word \<Rightarrow> 32 word list" where
  "first_outputs s = outputs_from (seed_loop 411 s 0)"

definition double_of_words :: "32 word \<Rightarrow> 32 word \<Rightarrow> rat" where
  "double_of_words w1 w2 =
     (of_int (uint (drop_bit 5 w1)) * 67108864 + of_int (uint (drop_bit 6 w2)))
       / 9007199254740992"

text \<open>How often a track occurs in the table, and the mean of a feature over the tracks
  weighted by that.\<close>

definition plays :: "event list \<Rightarrow> pystr \<Rightarrow> nat" where
  "plays df u = length (filter (\<lambda>e. spotify_track_uri e = Str u) df)"

definition play_weighted_mean :: "(feature \<Rightarrow> rat) \<Rightarrow> event list \<Rightarrow> feature list \<Rightarrow> float64" where
  "play_weighted_mean c df fs =
     (let n = sum_list (map (\<lambda>f. plays df (uri f)) fs)
      in if n = 0 then NaN
         else Finite (sum_list (map (\<lambda>f. of_nat (plays df (uri f)) * c f) fs) / of_nat n))"

section \<open>The specification's reading of the draws\<close>

text \<open>
  The specification describes six draws, one per documented dimension, in the order
  danceability, energy, valence, speechiness, acousticness, instrumentalness,
  and no tempo.
\<close>

definition draw_six_dimensions :: "mt19937_state \<Rightarrow> rat \<times> rat \<times> rat \<times> rat \<times> rat \<times> rat" where
  "draw_six_dimensions g0 =
     (let (d, g1) = np_random_uniform (2 / 10) (9 / 10) g0;
          (e, g2) = np_random_uniform (1 / 10) 1 g1;
          (v, g3) = np_random_uniform (1 / 10) (9 / 10) g2;
          (s, g4) = np_random_uniform (2 / 100) (2 / 10) g3;
          (a, g5) = np_random_uniform 0 1 g4;
          (i, g6) = np_random_uniform 0 (8 / 10) g5
      in (d, e, v, s, a, i))"

section \<open>The specification's reading of the classifier\<close>

text \<open>
  The specification describes the classifier as an ordered list of guarded labels, the
  first matching guard deciding, with a fallback label.
\<close>

definition profile_rules :: "((features \<Rightarrow> bool) \<times> personality) list" where
  "profile_rules =
     [(\<lambda>f. gt (mean_energy f) (7 / 10) \<and> gt (mean_danceability f) (6 / 10), Party_Starter),
      (\<lambda>f. gt (mean_acousticness f) (6 / 10) \<and> gt (mean_instrumentalness f) (4 / 10),
         Soul_Searcher),
      (\<lambda>f. gt (mean_valence f) (6 / 10) \<and> gt (mean_energy f) (5 / 10), Mood_Lifter),
      (\<lambda>f. gt (mean_speechiness f) (4 / 10), Lyric_Lover)]"

fun first_match :: "(('a \<Rightarrow> bool) \<times> 'b) list \<Rightarrow> 'b \<Rightarrow> 'a \<Rightarrow> 'b" where
  "first_match [] fallback x = fallback"
| "first_match ((guard, label) # rules) fallback x =
     (if guard x then label else first_match rules fallback x)"

section \<open>Auxiliary notions: the records of the files\<close>

text \<open>A file loads when \<open>json.load\<close> returns its records.\<close>

definition loads :: "uploaded_file \<Rightarrow> bool" where
  "loads f = (\<exists>d. content f = Loaded d)"

text \<open>The records of all the files that load, in upload order.\<close>

definition records_of :: "uploaded_file list \<Rightarrow> raw_record list" where
  "records_of files =
     concat (map (\<lambda>f. case content f of Loaded d \<Rightarrow> d | _ \<Rightarrow> []) files)"

section \<open>Sample data\<close>

definition py :: "string \<Rightarrow> pystr" where
  "py s = map of_char s"

definition play :: "ts_cell \<Rightarrow> int \<Rightarrow> json_val \<Rightarrow> raw_record" where
  "play c ms u = \<lparr>raw_ts = c, raw_ms_played = ms, raw_uri = u\<rparr>"

definition quarter_past_eight :: timestamp where
  "quarter_past_eight = \<lparr>year = 2024, month = 1, day = 5, hour = 8, minute = 15, second = 0\<rparr>"

definition at_hour :: "nat \<Rightarrow> int \<Rightarrow> event" where
  "at_hour h ms =
     \<lparr>ts = Some \<lparr>year = 2024, month = 1, day = 5, hour = h, minute = 0, second = 0\<rparr>,
      ms_played = ms, minutes_played = of_int ms / (1000 * 60), spotify_track_uri = Null\<rparr>"

definition untimed :: "int \<Rightarrow> event" where
  "untimed ms =
     \<lparr>ts = None, ms_played = ms, minutes_played = of_int ms / (1000 * 60),
      spotify_track_uri = Null\<rparr>"

definition track_ab :: pystr where
  "track_ab = py ''spotify:track:ab''"

definition heard :: "nat \<Rightarrow> int \<Rightarrow> json_val \<Rightarrow> event" where
  "heard h ms u = (at_hour h ms)\<lparr>spotify_track_uri := u\<rparr>"

section \<open>Ingestion: a file that does not load\<close>

lemma load_files_first_failure:
  assumes "\<forall>p \<in> set pre. loads p" and "\<not> loads f"
  shows "load_files (pre @ f # post) acc =
           (case content f of
              JSONDecodeError \<Rightarrow> Inl (Error_reading (name f))
            | Raises e \<Rightarrow> Inl (Uncaught e)
            | _ \<Rightarrow> Inl (Uncaught TypeError))"
  using assms
proof (induction pre arbitrary: acc)
  case Nil
  then show ?case by (cases "content f") (simp_all add: loads_def)
next
  case (Cons p pre)
  then obtain d where "content p = Loaded d" by (auto simp: loads_def)
  with Cons show ?case by simp
qed

text \<open>
  Whatever makes a file fail to load, \<open>process_files\<close> returns no table, and the records
  of the files read before it appear nowhere in the result.  The first file that does
  not load decides the outcome: the report that names it for a \<open>JSONDecodeError\<close>,
  the uncaught exception otherwise.
\<close>

lemma process_files_first_failure:
  assumes "\<exists>f \<in> set files. \<not> loads f"
  shows "\<exists>pre f post. files = pre @ f # post
           \<and> (\<forall>p \<in> set pre. loads p) \<and> \<not> loads f
           \<and> (content f = JSONDecodeError
                \<longrightarrow> process_files files = Inl (Error_reading (name f)))
           \<and> (\<forall>e. content f = Raises e \<longrightarrow> process_files files = Inl (Uncaught e))
           \<and> (content f = Scalar \<longrightarrow> process_files files = Inl (Uncaught TypeError))
           \<and> (\<forall>df. process_files files \<noteq> Inr df)"
proof -
  from split_list_first_prop[OF assms]
  obtain pre f post where s: "files = pre @ f # post" "\<not> loads f" "\<forall>p \<in> set pre. loads p"
    by blast
  have l: "load_files files [] =
           (case content f of
              JSONDecodeError \<Rightarrow> Inl (Error_reading (name f))
            | Raises e \<Rightarrow> Inl (Uncaught e)
            | _ \<Rightarrow> Inl (Uncaught TypeError))"
    using load_files_first_failure[OF s(3) s(2)] s(1) by simp
  have a: "content f = JSONDecodeError \<longrightarrow> process_files files = Inl (Error_reading (name f))"
    using l by (simp add: process_files_def)
  have b: "\<forall>e. content f = Raises e \<longrightarrow> process_files files = Inl (Uncaught e)"
    using l by (simp add: process_files_def)
  have c: "content f = Scalar \<longrightarrow> process_files files = Inl (Uncaught TypeError)"
    using l by (simp add: process_files_def)
  have d: "\<forall>df. process_files files \<noteq> Inr df"
    using l by (cases "content f") (simp_all add: process_files_def)
  from s a b c d show ?thesis by blast
qed

text \<open>
  C5, at an input where the code departs from it.  The second of two files is not UTF-8:
  \<open>json.load\<close> raises \<open>UnicodeDecodeError\<close>, which the \<open>except\<close> clause does not
  catch.  No table is returned, but nothing names the file; the same file with a
  syntax error is reported by name.
\<close>

theorem ingestion_failing_input:
  "process_files
     [\<lparr>name = ''a.json'', content = Loaded [play (Parses quarter_past_eight) 1000000 Null]\<rparr>,
      \<lparr>name = ''b.json'', content = Raises UnicodeDecodeError\<rparr>]
     = Inl (Uncaught UnicodeDecodeError)
   \<and> process_files
     [\<lparr>name = ''a.json'', content = Loaded [play (Parses quarter_past_eight) 1000000 Null]\<rparr>,
      \<lparr>name = ''b.json'', content = Raises UnicodeDecodeError\<rparr>]
     \<noteq> Inl (Error_reading ''b.json'')
   \<and> process_files
     [\<lparr>name = ''a.json'', content = Loaded [play (Parses quarter_past_eight) 1000000 Null]\<rparr>,
      \<lparr>name = ''b.json'', content = JSONDecodeError\<rparr>]
     = Inl (Error_reading ''b.json'')"
  by (simp add: process_files_def)

section \<open>The listening clock\<close>

lemma filter_key_map:
  "filter (\<lambda>kv. fst kv = h) (map (\<lambda>k. (k, g k)) ks)
     = map (\<lambda>k. (k, g k)) (filter (\<lambda>k. k = h) ks)"
  by (induction ks) auto

lemma filter_eq_distinct:
  "distinct ks \<Longrightarrow> filter (\<lambda>k. k = h) ks = (if h \<in> set ks then [h] else [])"
  by (induction ks) auto

lemma groupby_sum_lookup:
  "filter (\<lambda>kv. fst kv = h) (groupby_sum kvs) =
     (if h \<in> fst ` set kvs
      then [(h, sum_list (map snd (filter (\<lambda>kv. fst kv = h) kvs)))] else [])"
  by (simp add: groupby_sum_def filter_key_map filter_eq_distinct)

lemma filter_absent_key: "h \<notin> fst ` set kvs \<Longrightarrow> filter (\<lambda>kv. fst kv = h) kvs = []"
  by (induction kvs) auto

lemma clock_row:
  "(case filter (\<lambda>r. fst r = h) (groupby_sum kvs) of
      [] \<Rightarrow> [(h, None)] | ms \<Rightarrow> map (\<lambda>r. (h, Some r)) ms)
   = [(h, if h \<in> fst ` set kvs
          then Some (h, sum_list (map snd (filter (\<lambda>kv. fst kv = h) kvs))) else None)]"
  by (simp add: groupby_sum_lookup)

lemma concat_map_single: "concat (map (\<lambda>x. [f x]) xs) = map f xs"
  by (induction xs) auto

lemma set_map_filter: "set (List.map_filter f xs) = {y. \<exists>x \<in> set xs. f x = Some y}"
  by (induction xs) (auto split: option.splits)

lemma minutes_of_hour:
  "sum_list (map snd (filter (\<lambda>kv. fst kv = h)
      (List.map_filter (\<lambda>r. map_option (\<lambda>t. (hour t, minutes_played r)) (ts r)) df)))
   = sum_list (map minutes_played (filter (\<lambda>r. map_option hour (ts r) = Some h) df))"
proof (induction df)
  case Nil
  then show ?case by simp
next
  case (Cons r df)
  then show ?case by (cases "ts r") auto
qed

text \<open>
  C8.  The listening clock has exactly the 24 rows of hours 0 to 23, in order; the row of
  an hour holds the sum of the minutes played of the events of that hour, which is 0
  for an hour without events.
\<close>

theorem listening_clock_24_buckets:
  "create_listening_clock df =
     map (\<lambda>h. (h, sum_list (map minutes_played
                  (filter (\<lambda>r. map_option hour (ts r) = Some h) df)))) [0..<24]"
proof -
  let ?kvs = "List.map_filter (\<lambda>r. map_option (\<lambda>t. (hour t, minutes_played r)) (ts r)) df"
  have m: "merge_left id fst [0..<24] (groupby_sum ?kvs) =
     map (\<lambda>h. (h, if h \<in> fst ` set ?kvs
                   then Some (h, sum_list (map snd (filter (\<lambda>kv. fst kv = h) ?kvs)))
                   else None)) [0..<24]"
    unfolding merge_left_def id_apply clock_row by (rule concat_map_single)
  have "create_listening_clock df =
     map (\<lambda>h. (h, sum_list (map snd (filter (\<lambda>kv. fst kv = h) ?kvs)))) [0..<24]"
    unfolding create_listening_clock_def hourly_stats_def m
    by (auto simp: filter_absent_key)
  then show ?thesis unfolding minutes_of_hour .
qed

section \<open>The profile classifier\<close>

text \<open>
  C4.  The label is that of the first rule of the ordered list whose guard holds for the
  averaged features, and the fallback label \<open>Eclectic_Explorer\<close> when none does; a
  comparison with NaN is false, so a column without values falls through.  Every
  six averaged features get one label, and on a table with feature columns
  \<open>analyze_music_profile\<close> returns it.
\<close>

theorem profile_first_match:
  "personality_of f = first_match profile_rules Eclectic_Explorer f
   \<and> analyze_music_profile (Enriched rows) =
       Inr (first_match profile_rules Eclectic_Explorer (mean_features rows), mean_features rows)"
  by (simp add: analyze_music_profile_def personality_of_def profile_rules_def Let_def)

section \<open>Ingestion: timestamps that do not parse\<close>

lemma load_files_all_loaded:
  "\<forall>f \<in> set files. loads f \<Longrightarrow> load_files files acc = Inr (acc @ records_of files)"
proof (induction files arbitrary: acc)
  case Nil
  then show ?case by (simp add: records_of_def)
next
  case (Cons f files)
  then obtain d where "content f = Loaded d" by (auto simp: loads_def)
  with Cons show ?case by (simp add: records_of_def)
qed

lemma load_files_Inr_suffix:
  "load_files files acc = Inr all_data \<Longrightarrow> all_data = acc @ records_of files"
proof (induction files arbitrary: acc)
  case Nil
  then show ?case by (simp add: records_of_def)
next
  case (Cons f files)
  show ?case
  proof (cases "content f")
    case (Loaded d)
    with Cons.prems have "load_files files (acc @ d) = Inr all_data" by simp
    from Cons.IH[OF this] Loaded show ?thesis by (simp add: records_of_def)
  qed (use Cons.prems in simp_all)
qed

lemma map2_canonical_row:
  "map2 canonical_row rs (map (parsed \<circ> raw_ts) rs)
     = map (\<lambda>r. canonical_row r (parsed (raw_ts r))) rs"
  by (induction rs) auto

lemma rejected_gives_no_table:
  assumes "r \<in> set (records_of files)" and "raw_ts r = Rejected"
  shows "process_files files \<noteq> Inr df"
proof (cases "load_files files []")
  case (Inl e)
  then show ?thesis by (simp add: process_files_def)
next
  case (Inr all_data)
  then have "all_data = records_of files" using load_files_Inr_suffix by fastforce
  with assms have "Rejected \<in> set (map raw_ts all_data)" by force
  then have "to_datetime (map raw_ts all_data) = None" by (simp add: to_datetime_def)
  with Inr show ?thesis by (simp add: process_files_def)
qed

lemma rejected_raises:
  assumes "r \<in> set (records_of files)" and "raw_ts r = Rejected"
    and "\<forall>f \<in> set files. loads f"
  shows "process_files files = Inl (Uncaught ValueError)"
proof -
  have l: "load_files files [] = Inr (records_of files)"
    using load_files_all_loaded[OF assms(3), of "[]"] by simp
  have n: "records_of files \<noteq> []" using assms(1) by auto
  have "raw_ts r \<noteq> No_key" using assms(2) by simp
  then have k: "\<not> list_all (\<lambda>r. raw_ts r = No_key) (records_of files)"
    using assms(1) by (auto simp: list_all_iff)
  have "Rejected \<in> set (map raw_ts (records_of files))" using assms(1,2) by force
  then have "to_datetime (map raw_ts (records_of files)) = None" by (simp add: to_datetime_def)
  with l n k show ?thesis by (simp add: process_files_def)
qed

lemma blank_rows_are_kept:
  assumes "\<forall>f \<in> set files. loads f"
    and "Rejected \<notin> raw_ts ` set (records_of files)"
    and "\<exists>r \<in> set (records_of files). raw_ts r \<noteq> No_key"
  shows "process_files files
           = Inr (map (\<lambda>r. canonical_row r (parsed (raw_ts r))) (records_of files))"
proof -
  have l: "load_files files [] = Inr (records_of files)"
    using load_files_all_loaded[OF assms(1), of "[]"] by simp
  have n: "records_of files \<noteq> []" using assms(3) by auto
  have k: "\<not> list_all (\<lambda>r. raw_ts r = No_key) (records_of files)"
    using assms(3) by (auto simp: list_all_iff)
  have "to_datetime (map raw_ts (records_of files))
          = Some (map parsed (map raw_ts (records_of files)))"
    using assms(2) by (simp add: to_datetime_def)
  with l n k show ?thesis by (simp add: process_files_def map2_canonical_row)
qed

text \<open>
  C6, as the code has it.  If a record of the uploaded files has a timestamp that
  \<open>pd.to_datetime\<close> rejects, \<open>process_files\<close> returns no table and skips no row; when
  every file loads, it ends in the \<open>ValueError\<close> that \<open>pd.to_datetime\<close> raises, which
  nothing catches and which names no file.  A timestamp that is missing, \<open>null\<close> or
  empty is not rejected: when every file loads, no timestamp is rejected and some record
  has the key, the table is returned with one row per record, in order, and those
  records are rows without an instant.
\<close>

theorem unparseable_timestamp_outcomes:
  "(\<forall>r. r \<in> set (records_of files) \<and> raw_ts r = Rejected \<longrightarrow>
        (\<forall>df. process_files files \<noteq> Inr df)
      \<and> ((\<forall>f \<in> set files. loads f) \<longrightarrow> process_files files = Inl (Uncaught ValueError)))
   \<and> ((\<forall>f \<in> set files. loads f) \<and> Rejected \<notin> raw_ts ` set (records_of files)
        \<and> (\<exists>r \<in> set (records_of files). raw_ts r \<noteq> No_key)
      \<longrightarrow> process_files files
            = Inr (map (\<lambda>r. canonical_row r (parsed (raw_ts r))) (records_of files)))"
  using rejected_gives_no_table rejected_raises blank_rows_are_kept by blast

theorem unparseable_timestamp_outcomes_witness:
  "play Rejected 1000000 Null
     \<in> set (records_of
         [\<lparr>name = ''a.json'', content = Loaded [play (Parses quarter_past_eight) 1000000 Null]\<rparr>,
          \<lparr>name = ''b.json'', content = Loaded [play Rejected 1000000 Null]\<rparr>])
   \<and> raw_ts (play Rejected 1000000 Null) = Rejected
   \<and> process_files
        [\<lparr>name = ''a.json'', content = Loaded [play (Parses quarter_past_eight) 1000000 Null]\<rparr>,
         \<lparr>name = ''b.json'', content = Loaded [play Rejected 1000000 Null]\<rparr>]
      = Inl (Uncaught ValueError)
   \<and> process_files
        [\<lparr>name = ''c.json'',
          content = Loaded [play Blank 1000000 Null, play (Parses quarter_past_eight) 500000 Null]\<rparr>]
      = Inr [canonical_row (play Blank 1000000 Null) None,
             canonical_row (play (Parses quarter_past_eight) 500000 Null)
               (Some quarter_past_eight)]"
proof -
  let ?r = "play Rejected 1000000 Null"
  let ?w = "[\<lparr>name = ''a.json'', content = Loaded [play (Parses quarter_past_eight) 1000000 Null]\<rparr>,
             \<lparr>name = ''b.json'', content = Loaded [?r]\<rparr>]"
  let ?v = "[\<lparr>name = ''c.json'',
              content = Loaded [play Blank 1000000 Null,
                                play (Parses quarter_past_eight) 500000 Null]\<rparr>]"
  have a: "?r \<in> set (records_of ?w)" by (simp add: records_of_def)
  have b: "raw_ts ?r = Rejected" by (simp add: play_def)
  have c: "\<forall>f \<in> set ?w. loads f" by (simp add: loads_def)
  have d: "\<forall>f \<in> set ?v. loads f" by (simp add: loads_def)
  have e: "Rejected \<notin> raw_ts ` set (records_of ?v)" by (simp add: records_of_def play_def)
  have f: "\<exists>r \<in> set (records_of ?v). raw_ts r \<noteq> No_key" by (simp add: records_of_def play_def)
  note t = unparseable_timestamp_outcomes[of ?w, THEN conjunct1, rule_format, of ?r]
  have g: "process_files ?w = Inl (Uncaught ValueError)" using t a b c by fast
  note u = unparseable_timestamp_outcomes[of ?v, THEN conjunct2, rule_format]
  have "process_files ?v = Inr (map (\<lambda>r. canonical_row r (parsed (raw_ts r))) (records_of ?v))"
    using u d e f by fast
  then have h: "process_files ?v
      = Inr [canonical_row (play Blank 1000000 Null) None,
             canonical_row (play (Parses quarter_past_eight) 500000 Null)
               (Some quarter_past_eight)]"
    by (simp add: records_of_def play_def)
  from a b g h show ?thesis by (intro conjI)
qed

text \<open>
  The claim as the specification words it fails twice.  The second of two files holds a
  record with a rejected timestamp: the failure is not the report that names that file,
  and it is the same whatever the files are called.  A file holds a record with an
  empty timestamp: the table is returned, with that record as a row.
\<close>

theorem unparseable_timestamp_counterexample:
  "process_files
     [\<lparr>name = ''a.json'', content = Loaded [play (Parses quarter_past_eight) 1000000 Null]\<rparr>,
      \<lparr>name = ''b.json'', content = Loaded [play Rejected 1000000 Null]\<rparr>]
   = Inl (Uncaught ValueError)
   \<and> process_files
     [\<lparr>name = ''a.json'', content = Loaded [play (Parses quarter_past_eight) 1000000 Null]\<rparr>,
      \<lparr>name = ''b.json'', content = Loaded [play Rejected 1000000 Null]\<rparr>]
   \<noteq> Inl (Error_reading ''b.json'')
   \<and> process_files
     [\<lparr>name = ''a.json'', content = Loaded [play (Parses quarter_past_eight) 1000000 Null]\<rparr>,
      \<lparr>name = ''b.json'', content = Loaded [play Rejected 1000000 Null]\<rparr>]
   = process_files
     [\<lparr>name = ''c.json'', content = Loaded [play (Parses quarter_past_eight) 1000000 Null]\<rparr>,
      \<lparr>name = ''d.json'', content = Loaded [play Rejected 1000000 Null]\<rparr>]
   \<and> process_files
     [\<lparr>name = ''c.json'',
       content = Loaded [play Blank 1000000 Null, play (Parses quarter_past_eight) 500000 Null]\<rparr>]
   = Inr [\<lparr>ts = None, ms_played = 1000000, minutes_played = 50 / 3, spotify_track_uri = Null\<rparr>,
          \<lparr>ts = Some quarter_past_eight, ms_played = 500000, minutes_played = 25 / 3,
           spotify_track_uri = Null\<rparr>]"
  by (simp add: process_files_def play_def to_datetime_def canonical_row_def)

section \<open>Time blocks\<close>

lemma idxmax_nonempty: "s \<noteq> [] \<Longrightarrow> \<exists>k. idxmax s = Some k"
  by (cases s) (auto split: option.splits)

lemma hourly_stats_keys:
  "set (map fst (hourly_stats df)) = {hour t | r t. r \<in> set df \<and> ts r = Some t}"
proof -
  have "set (map fst (hourly_stats df))
      = fst ` set (List.map_filter (\<lambda>r. map_option (\<lambda>t. (hour t, minutes_played r)) (ts r)) df)"
    by (simp add: hourly_stats_def groupby_sum_def comp_def)
  also have "\<dots> = {hour t | r t. r \<in> set df \<and> ts r = Some t}"
    by (force simp: set_map_filter)
  finally show ?thesis .
qed

lemma hourly_stats_nonempty:
  assumes "\<exists>r \<in> set df. ts r \<noteq> None"
  shows "hourly_stats df \<noteq> []"
proof
  assume "hourly_stats df = []"
  then have "set (map fst (hourly_stats df)) = {}" by simp
  with assms show False unfolding hourly_stats_keys by auto
qed

lemma hourly_stats_empty:
  assumes "\<forall>r \<in> set df. ts r = None"
  shows "hourly_stats df = []"
proof -
  have "set (map fst (hourly_stats df)) = {}" unfolding hourly_stats_keys using assms by auto
  then show ?thesis by simp
qed

lemma percentage_zero_total:
  "float_times (float_div x 0) 100 \<in> {NaN, PosInf, NegInf}"
  by (simp add: float_div_def)

lemma percentage_zero_zero: "float_times (float_div 0 0) 100 = NaN"
  by (simp add: float_div_def)

lemma hourly_stats_nonneg:
  assumes "\<forall>r \<in> set df. 0 \<le> minutes_played r"
  shows "\<forall>kv \<in> set (hourly_stats df). 0 \<le> snd kv"
proof -
  let ?kvs = "List.map_filter (\<lambda>r. map_option (\<lambda>t. (hour t, minutes_played r)) (ts r)) df"
  have "\<forall>kv \<in> set ?kvs. 0 \<le> snd kv" using assms by (auto simp: set_map_filter)
  then show ?thesis
    by (auto simp: hourly_stats_def groupby_sum_def intro!: sum_list_nonneg)
qed

lemma series_all_zero:
  assumes "\<forall>kv \<in> set s. 0 \<le> snd kv" and "series_sum s = 0"
  shows "\<forall>kv \<in> set s. snd kv = 0"
proof -
  have "\<forall>x \<in> set (map snd s). 0 \<le> x" using assms(1) by auto
  then have "sum_list (map snd s) = 0 \<longleftrightarrow> (\<forall>x \<in> set (map snd s). x = 0)"
    by (intro sum_list_nonneg_eq_0_iff) auto
  with assms(2) show ?thesis by (auto simp: series_sum_def)
qed

lemma series_sum_zero: "\<forall>kv \<in> set s. snd kv = 0 \<Longrightarrow> series_sum s = 0"
  by (induction s) (auto simp: series_sum_def)

lemma block_minutes_zero:
  assumes "\<forall>kv \<in> set s. snd kv = 0"
  shows "block_minutes s start end = 0"
proof -
  have "series_sum (drop a (take b s)) = 0" for a b
    using assms by (intro series_sum_zero) (meson in_set_dropD in_set_takeD)
  moreover have "series_sum (drop a s) = 0" for a
    using assms by (intro series_sum_zero) (meson in_set_dropD)
  moreover have "series_sum (take b s) = 0" for b
    using assms by (intro series_sum_zero) (meson in_set_takeD)
  ultimately show ?thesis by (simp add: block_minutes_def)
qed

lemma zero_total_with_instants:
  assumes "series_sum (hourly_stats df) = 0" and "df \<noteq> []" and "\<forall>r \<in> set df. ts r \<noteq> None"
  shows "\<exists>peak p1 p2 p3 p4.
           analyze_listening_patterns df =
             Inr (peak, [(''early_morning'', p1), (''work_hours'', p2), (''evening'', p3),
                         (''late_night'', p4)])
           \<and> {p1, p2, p3, p4} \<subseteq> {NaN, PosInf, NegInf}
           \<and> ((\<forall>r \<in> set df. 0 \<le> minutes_played r)
                \<longrightarrow> p1 = NaN \<and> p2 = NaN \<and> p3 = NaN \<and> p4 = NaN)"
proof -
  let ?s = "hourly_stats df"
  let ?p = "\<lambda>a b. float_times (float_div (block_minutes ?s a b) 0) 100"
  have "\<exists>r \<in> set df. ts r \<noteq> None" using assms(2,3) by (cases df) auto
  then obtain peak where pk: "idxmax ?s = Some peak"
    using idxmax_nonempty[OF hourly_stats_nonempty] by blast
  have fi: "\<not> float_index df" using assms(3) by (simp add: float_index_def)
  have r: "analyze_listening_patterns df =
     Inr (peak, [(''early_morning'', ?p 5 8), (''work_hours'', ?p 9 17), (''evening'', ?p 17 22),
                 (''late_night'', ?p 22 5)])"
    using pk fi assms(1)
    by (simp add: analyze_listening_patterns_def block_percentages_def time_blocks_def Let_def)
  have s: "{?p 5 8, ?p 9 17, ?p 17 22, ?p 22 5} \<subseteq> {NaN, PosInf, NegInf}"
    using percentage_zero_total by blast
  have n: "?p a b = NaN" if "\<forall>r \<in> set df. 0 \<le> minutes_played r" for a b
  proof -
    have "\<forall>kv \<in> set ?s. snd kv = 0"
      using series_all_zero[OF hourly_stats_nonneg[OF that] assms(1)] .
    then show ?thesis by (simp add: block_minutes_zero percentage_zero_zero)
  qed
  show ?thesis
    apply (rule exI[of _ peak])
    apply (rule exI[of _ "?p 5 8"])
    apply (rule exI[of _ "?p 9 17"])
    apply (rule exI[of _ "?p 17 22"])
    apply (rule exI[of _ "?p 22 5"])
    using r s n apply simp
    done
qed

lemma without_instant_raises:
  assumes "df = [] \<or> (\<exists>r \<in> set df. ts r = None)"
  shows "analyze_listening_patterns df = Inl ValueError"
proof (cases "idxmax (hourly_stats df)")
  case None
  then show ?thesis by (simp add: analyze_listening_patterns_def Let_def)
next
  case (Some k)
  then have "hourly_stats df \<noteq> []" by auto
  then have "df \<noteq> []" by (auto simp: hourly_stats_def groupby_sum_def)
  with assms have "float_index df" by (simp add: float_index_def)
  with Some show ?thesis by (simp add: analyze_listening_patterns_def Let_def)
qed

text \<open>
  C7, as the code has it.  Let the total of the hourly minutes be zero.  On a table with
  at least one row, every row with an instant, \<open>analyze_listening_patterns\<close> raises
  nothing and returns four percentages, none of which is a number: each is NaN or an
  infinity, and all four are NaN when no row has negative minutes.  On a table with a
  row without an instant, or without rows, it raises \<open>ValueError\<close>.
\<close>

theorem zero_total_gives_nan:
  assumes "series_sum (hourly_stats df) = 0"
  shows "(df \<noteq> [] \<and> (\<forall>r \<in> set df. ts r \<noteq> None) \<longrightarrow>
          (\<exists>peak p1 p2 p3 p4.
             analyze_listening_patterns df =
               Inr (peak, [(''early_morning'', p1), (''work_hours'', p2), (''evening'', p3),
                           (''late_night'', p4)])
             \<and> {p1, p2, p3, p4} \<subseteq> {NaN, PosInf, NegInf}
             \<and> ((\<forall>r \<in> set df. 0 \<le> minutes_played r)
                  \<longrightarrow> p1 = NaN \<and> p2 = NaN \<and> p3 = NaN \<and> p4 = NaN)))
       \<and> (df = [] \<or> (\<exists>r \<in> set df. ts r = None)
            \<longrightarrow> analyze_listening_patterns df = Inl ValueError)"
proof (rule conjI)
  show "df \<noteq> [] \<and> (\<forall>r \<in> set df. ts r \<noteq> None) \<longrightarrow>
          (\<exists>peak p1 p2 p3 p4.
             analyze_listening_patterns df =
               Inr (peak, [(''early_morning'', p1), (''work_hours'', p2), (''evening'', p3),
                           (''late_night'', p4)])
             \<and> {p1, p2, p3, p4} \<subseteq> {NaN, PosInf, NegInf}
             \<and> ((\<forall>r \<in> set df. 0 \<le> minutes_played r)
                  \<longrightarrow> p1 = NaN \<and> p2 = NaN \<and> p3 = NaN \<and> p4 = NaN))"
  proof (rule impI)
    assume h: "df \<noteq> [] \<and> (\<forall>r \<in> set df. ts r \<noteq> None)"
    from h have a: "df \<noteq> []" and b: "\<forall>r \<in> set df. ts r \<noteq> None" by simp_all
    show "\<exists>peak p1 p2 p3 p4.
             analyze_listening_patterns df =
               Inr (peak, [(''early_morning'', p1), (''work_hours'', p2), (''evening'', p3),
                           (''late_night'', p4)])
             \<and> {p1, p2, p3, p4} \<subseteq> {NaN, PosInf, NegInf}
             \<and> ((\<forall>r \<in> set df. 0 \<le> minutes_played r)
                  \<longrightarrow> p1 = NaN \<and> p2 = NaN \<and> p3 = NaN \<and> p4 = NaN)"
      by (rule zero_total_with_instants[OF assms a b])
  qed
next
  show "df = [] \<or> (\<exists>r \<in> set df. ts r = None)
            \<longrightarrow> analyze_listening_patterns df = Inl ValueError"
    by (rule impI) (rule without_instant_raises)
qed

theorem zero_total_gives_nan_witness:
  "series_sum (hourly_stats [at_hour 10 0]) = 0
   \<and> [at_hour 10 0] \<noteq> []
   \<and> list_all (\<lambda>r. ts r \<noteq> None) [at_hour 10 0]
   \<and> (\<exists>peak p1 p2 p3 p4.
           analyze_listening_patterns [at_hour 10 0] =
             Inr (peak, [(''early_morning'', p1), (''work_hours'', p2), (''evening'', p3),
                         (''late_night'', p4)])
           \<and> {p1, p2, p3, p4} \<subseteq> {NaN, PosInf, NegInf}
           \<and> ((\<forall>r \<in> set [at_hour 10 0]. 0 \<le> minutes_played r)
                \<longrightarrow> p1 = NaN \<and> p2 = NaN \<and> p3 = NaN \<and> p4 = NaN))
   \<and> series_sum (hourly_stats [untimed 0]) = 0
   \<and> (\<exists>r \<in> set [untimed 0]. ts r = None)
   \<and> analyze_listening_patterns [untimed 0] = Inl ValueError"
proof -
  have a: "series_sum (hourly_stats [at_hour 10 0]) = 0" by code_simp
  have b: "[at_hour 10 0] \<noteq> []" by simp
  have c: "\<forall>r \<in> set [at_hour 10 0]. ts r \<noteq> None" by (simp add: at_hour_def)
  have c': "list_all (\<lambda>r. ts r \<noteq> None) [at_hour 10 0]" by (simp add: at_hour_def)
  have d: "series_sum (hourly_stats [untimed 0]) = 0" by code_simp
  have e: "\<exists>r \<in> set [untimed 0]. ts r = None" by (simp add: untimed_def)
  note t = zero_total_gives_nan[OF a, THEN conjunct1, rule_format, OF conjI, OF b c]
  note u = zero_total_gives_nan[OF d, THEN conjunct2, rule_format, OF disjI2, OF e]
  show ?thesis by (intro conjI a b c' t d e u)
qed

text \<open>
  The claim as the specification words it fails twice: one play of zero milliseconds at
  ten o'clock gives four NaN, not four zeros; and one play of zero milliseconds without
  an instant makes the function raise.
\<close>

theorem zero_total_counterexample:
  "analyze_listening_patterns [at_hour 10 0] =
     Inr (10, [(''early_morning'', NaN), (''work_hours'', NaN), (''evening'', NaN),
               (''late_night'', NaN)])
   \<and> analyze_listening_patterns [at_hour 10 0] \<noteq>
     Inr (10, [(''early_morning'', Finite 0), (''work_hours'', Finite 0),
               (''evening'', Finite 0), (''late_night'', Finite 0)])
   \<and> series_sum (hourly_stats [untimed 0]) = 0
   \<and> analyze_listening_patterns [untimed 0] = Inl ValueError"
  by code_simp

text \<open>
  C3, at an input where the code departs from it.  Nine plays of one minute each, one in
  every hour from 10 to 18: the Series of hourly sums has nine entries, at positions
  0 to 8, and the slices select by position.  The late-night block gets the five hours
  10 to 14 although no minute was played between 22 and 5, the early-morning block
  gets the hours 15 to 17, position 8 belongs to no block, and the four percentages
  add up to 800/9.
\<close>

theorem time_blocks_failing_input:
  "analyze_listening_patterns (map (\<lambda>h. at_hour h 60000) [10..<19]) =
     Inr (10, [(''early_morning'', Finite (100 / 3)), (''work_hours'', Finite 0),
               (''evening'', Finite 0), (''late_night'', Finite (500 / 9))])
   \<and> sum_list (map minutes_played
        (filter (\<lambda>r. case ts r of None \<Rightarrow> False | Some t \<Rightarrow> hour t \<in> {22, 23, 0, 1, 2, 3, 4})
           (map (\<lambda>h. at_hour h 60000) [10..<19]))) = 0
   \<and> (100 / 3 + 0 + 0 + 500 / 9 :: rat) = 800 / 9"
  by code_simp


section \<open>Feature synthesis\<close>

lemma uint_drop_bit_bound:
  fixes w :: "32 word"
  assumes "n \<le> 32"
  shows "0 \<le> uint (drop_bit n w) \<and> uint (drop_bit n w) < 2 ^ (32 - n)"
proof -
  have "unat w < 2 ^ 32" using unsigned_less[of w] by simp
  moreover have "(2::nat) ^ 32 = 2 ^ (32 - n) * 2 ^ n"
    using assms by (simp flip: power_add)
  ultimately have "unat w div 2 ^ n < 2 ^ (32 - n)"
    by (simp add: less_mult_imp_div_less)
  then have "unat (drop_bit n w) < 2 ^ (32 - n)"
    by (subst unat_drop_bit_eq) (simp add: drop_bit_eq_div)
  then have "int (unat (drop_bit n w)) < int (2 ^ (32 - n))"
    by (simp only: of_nat_less_iff)
  then show ?thesis by simp
qed

lemma next_double_range:
  "0 \<le> fst (mt19937_next_double g) \<and> fst (mt19937_next_double g) < 1"
proof -
  obtain w1 g1 where n1: "mt19937_next g = (w1, g1)" by (cases "mt19937_next g")
  obtain w2 g2 where n2: "mt19937_next g1 = (w2, g2)" by (cases "mt19937_next g1")
  let ?a = "uint (drop_bit 5 w1)" and ?b = "uint (drop_bit 6 w2)"
  have a: "0 \<le> ?a" "?a < 2 ^ 27" using uint_drop_bit_bound[of 5 w1] by simp_all
  have b: "0 \<le> ?b" "?b < 2 ^ 26" using uint_drop_bit_bound[of 6 w2] by simp_all
  have v: "fst (mt19937_next_double g) = (of_int ?a * 67108864 + of_int ?b) / 9007199254740992"
    by (simp add: mt19937_next_double_def n1 n2)
  have "?a * 67108864 + ?b < 9007199254740992" using a b by simp
  then have "(of_int (?a * 67108864 + ?b) :: rat) < of_int 9007199254740992"
    by (simp only: of_int_less_iff)
  then have lt: "(of_int ?a * 67108864 + of_int ?b :: rat) < 9007199254740992" by simp
  have "0 \<le> ?a * 67108864 + ?b" using a b by simp
  then have "(of_int 0 :: rat) \<le> of_int (?a * 67108864 + ?b)" by (simp only: of_int_le_iff)
  then have ge: "(0 :: rat) \<le> of_int ?a * 67108864 + of_int ?b" by simp
  from lt ge show ?thesis unfolding v by simp
qed

lemma uniform_value:
  "fst (np_random_uniform low high g) = low + (high - low) * fst (mt19937_next_double g)"
  "snd (np_random_uniform low high g) = snd (mt19937_next_double g)"
  by (simp_all add: np_random_uniform_def split_beta)

lemma uniform_range:
  assumes "low \<le> high"
  shows "low \<le> fst (np_random_uniform low high g) \<and> fst (np_random_uniform low high g) \<le> high"
proof -
  let ?u = "fst (mt19937_next_double g)"
  have u: "0 \<le> ?u" "?u < 1" using next_double_range by auto
  have "0 \<le> (high - low) * ?u" using assms u by simp
  moreover have "(high - low) * ?u \<le> (high - low) * 1"
    using assms u by (intro mult_left_mono) auto
  ultimately show ?thesis by (simp add: uniform_value)
qed

lemma draw_features_uri: "uri (fst (draw_features u g)) = u"
  by (simp add: draw_features_def split_beta Let_def)

lemma draw_features_ranges:
  fixes f :: feature
  assumes "f = fst (draw_features u g)"
  shows "2 / 10 \<le> danceability f \<and> danceability f \<le> 9 / 10"
    and "1 / 10 \<le> energy f \<and> energy f \<le> 1"
    and "1 / 10 \<le> valence f \<and> valence f \<le> 9 / 10"
    and "70 \<le> tempo f \<and> tempo f \<le> 180"
    and "2 / 100 \<le> speechiness f \<and> speechiness f \<le> 2 / 10"
    and "0 \<le> acousticness f \<and> acousticness f \<le> 1"
    and "0 \<le> instrumentalness f \<and> instrumentalness f \<le> 8 / 10"
proof -
  have r: "\<And>h. 2 / 10 \<le> fst (np_random_uniform (2 / 10) (9 / 10) h)
               \<and> fst (np_random_uniform (2 / 10) (9 / 10) h) \<le> 9 / 10"
    "\<And>h. 1 / 10 \<le> fst (np_random_uniform (1 / 10) 1 h)
               \<and> fst (np_random_uniform (1 / 10) 1 h) \<le> 1"
    "\<And>h. 1 / 10 \<le> fst (np_random_uniform (1 / 10) (9 / 10) h)
               \<and> fst (np_random_uniform (1 / 10) (9 / 10) h) \<le> 9 / 10"
    "\<And>h. 70 \<le> fst (np_random_uniform 70 180 h) \<and> fst (np_random_uniform 70 180 h) \<le> 180"
    "\<And>h. 2 / 100 \<le> fst (np_random_uniform (2 / 100) (2 / 10) h)
               \<and> fst (np_random_uniform (2 / 100) (2 / 10) h) \<le> 2 / 10"
    "\<And>h. 0 \<le> fst (np_random_uniform 0 1 h) \<and> fst (np_random_uniform 0 1 h) \<le> 1"
    "\<And>h. 0 \<le> fst (np_random_uniform 0 (8 / 10) h)
               \<and> fst (np_random_uniform 0 (8 / 10) h) \<le> 8 / 10"
    by (rule uniform_range, simp)+
  show "2 / 10 \<le> danceability f \<and> danceability f \<le> 9 / 10"
    by (simp only: assms draw_features_def split_beta Let_def fst_conv feature.select_convs r)
  show "1 / 10 \<le> energy f \<and> energy f \<le> 1"
    by (simp only: assms draw_features_def split_beta Let_def fst_conv feature.select_convs r)
  show "1 / 10 \<le> valence f \<and> valence f \<le> 9 / 10"
    by (simp only: assms draw_features_def split_beta Let_def fst_conv feature.select_convs r)
  show "70 \<le> tempo f \<and> tempo f \<le> 180"
    by (simp only: assms draw_features_def split_beta Let_def fst_conv feature.select_convs r)
  show "2 / 100 \<le> speechiness f \<and> speechiness f \<le> 2 / 10"
    by (simp only: assms draw_features_def split_beta Let_def fst_conv feature.select_convs r)
  show "0 \<le> acousticness f \<and> acousticness f \<le> 1"
    by (simp only: assms draw_features_def split_beta Let_def fst_conv feature.select_convs r)
  show "0 \<le> instrumentalness f \<and> instrumentalness f \<le> 8 / 10"
    by (simp only: assms draw_features_def split_beta Let_def fst_conv feature.select_convs r)
qed

lemma track_features_eq:
  "fst (track_features v g) =
     (case v of Str u \<Rightarrow> if u \<noteq> [] \<and> encode u = None then Inl () else Inr (seeded_features v)
      | _ \<Rightarrow> Inr None)"
  by (cases v)
     (auto simp: track_features_def seeded_features_def np_random_seed_def split_beta
           split: option.splits)

lemma audio_features_eq: "audio_features vs g = List.map_filter seeded_features vs"
proof (induction vs arbitrary: g)
  case Nil
  then show ?case by (simp add: audio_features_def map_filter_simps)
next
  case (Cons v vs)
  obtain r g' where t: "track_features v g = (r, g')" by (cases "track_features v g")
  have r: "r = (case v of Str u \<Rightarrow> if u \<noteq> [] \<and> encode u = None then Inl () else Inr (seeded_features v)
      | _ \<Rightarrow> Inr None)"
    using track_features_eq[of v g] t by simp
  have n: "seeded_features v = None" if "r = Inl ()"
    using that r by (cases v) (auto simp: seeded_features_def split: if_splits)
  have s: "seeded_features v = x" if "r = Inr x" for x
    using that r by (cases v) (auto simp: seeded_features_def split: if_splits)
  have ih: "fst (features_loop vs g') = List.map_filter seeded_features vs"
    using Cons.IH[of g'] by (simp add: audio_features_def)
  show ?case
  proof (cases r)
    case (Inl a)
    then show ?thesis using t ih n
      by (simp add: audio_features_def split_beta map_filter_simps)
  next
    case (Inr x)
    then show ?thesis using t ih s[OF Inr]
      by (cases x) (simp_all add: audio_features_def split_beta map_filter_simps)
  qed
qed

lemma set_audio_features:
  "set (audio_features vs g) = {f. \<exists>v \<in> set vs. seeded_features v = Some f}"
  by (simp add: audio_features_eq set_map_filter)

lemma seeded_features_Some:
  "seeded_features v = Some f \<longleftrightarrow>
     (\<exists>u bs. v = Str u \<and> u \<noteq> [] \<and> encode u = Some bs
        \<and> f = fst (draw_features u (mt19937_seed (uri_seed bs))))"
  by (cases v) (auto simp: seeded_features_def)

lemma seeded_features_uri: "seeded_features v = Some f \<Longrightarrow> v = Str (uri f)"
  by (auto simp: seeded_features_Some draw_features_uri)

lemma encode_track_ab:
  "encode track_ab = Some [115, 112, 111, 116, 105, 102, 121, 58, 116, 114, 97, 99, 107, 58, 97, 98]"
  by (simp add: track_ab_def py_def utf8_char_def)

lemma seed_track_ab:
  "uri_seed [115, 112, 111, 116, 105, 102, 121, 58, 116, 114, 97, 99, 107, 58, 97, 98] = 1798988130"
  by (simp add: uri_seed_def int_from_bytes_def)

lemma track_ab_nonempty: "track_ab \<noteq> []"
  by (simp add: track_ab_def py_def)

lemma seeded_track_ab:
  "seeded_features (Str track_ab) = Some (fst (draw_features track_ab (mt19937_seed 1798988130)))"
  by (simp add: seeded_features_def track_ab_nonempty encode_track_ab seed_track_ab)

text \<open>
  C1.  The feature row of a track id depends on the id alone.  Two rows for the same id
  are equal, whatever the batches they were synthesized in, the order of those batches
  and the state of the global generator before each; and every non-empty id that
  encodes gets, in any batch that holds it, the row drawn from a generator seeded with
  the big-endian integer of its bytes modulo \<open>2^32\<close>.
\<close>

theorem synthesis_deterministic:
  "(\<forall>f \<in> set (audio_features vs g). \<forall>f' \<in> set (audio_features ws h). uri f = uri f' \<longrightarrow> f = f')
   \<and> (\<forall>u bs. Str u \<in> set vs \<and> u \<noteq> [] \<and> encode u = Some bs
         \<longrightarrow> fst (draw_features u (mt19937_seed (uri_seed bs))) \<in> set (audio_features vs g))"
proof (intro conjI ballI allI impI)
  fix f f'
  assume "f \<in> set (audio_features vs g)" "f' \<in> set (audio_features ws h)" "uri f = uri f'"
  then obtain v v' where "seeded_features v = Some f" "seeded_features v' = Some f'"
    by (auto simp: set_audio_features)
  then have "v = Str (uri f)" "v' = Str (uri f')" "seeded_features v = Some f"
    "seeded_features v' = Some f'"
    by (simp_all add: seeded_features_uri)
  with \<open>uri f = uri f'\<close> show "f = f'" by simp
next
  fix u bs
  assume a: "Str u \<in> set vs \<and> u \<noteq> [] \<and> encode u = Some bs"
  then have "seeded_features (Str u) = Some (fst (draw_features u (mt19937_seed (uri_seed bs))))"
    by (simp add: seeded_features_def)
  with a show "fst (draw_features u (mt19937_seed (uri_seed bs))) \<in> set (audio_features vs g)"
    by (auto simp: set_audio_features)
qed

theorem synthesis_deterministic_witness:
  "Str track_ab \<in> set [Str track_ab, Null] \<and> Str track_ab \<in> set [Str [], Str track_ab]
   \<and> track_ab \<noteq> []
   \<and> fst (draw_features track_ab (mt19937_seed 1798988130))
       \<in> set (audio_features [Str track_ab, Null] (mt19937_seed 0))
   \<and> fst (draw_features track_ab (mt19937_seed 1798988130))
       \<in> set (audio_features [Str [], Str track_ab] (mt19937_seed 1))"
proof -
  let ?bs = "[115, 112, 111, 116, 105, 102, 121, 58, 116, 114, 97, 99, 107, 58, 97, 98] :: 8 word list"
  have a: "Str track_ab \<in> set [Str track_ab, Null] \<and> track_ab \<noteq> [] \<and> encode track_ab = Some ?bs"
    by (simp add: track_ab_nonempty encode_track_ab)
  have b: "Str track_ab \<in> set [Str [], Str track_ab] \<and> track_ab \<noteq> [] \<and> encode track_ab = Some ?bs"
    by (simp add: track_ab_nonempty encode_track_ab)
  from synthesis_deterministic[of "[Str track_ab, Null]" "mt19937_seed 0" "[]" "mt19937_seed 0"] a
  have c: "fst (draw_features track_ab (mt19937_seed (uri_seed ?bs)))
       \<in> set (audio_features [Str track_ab, Null] (mt19937_seed 0))" by blast
  from synthesis_deterministic[of "[Str [], Str track_ab]" "mt19937_seed 1" "[]" "mt19937_seed 0"] b
  have d: "fst (draw_features track_ab (mt19937_seed (uri_seed ?bs)))
       \<in> set (audio_features [Str [], Str track_ab] (mt19937_seed 1))" by blast
  from a b c d show ?thesis by (simp add: seed_track_ab)
qed

text \<open>
  C2.  Every row the synthesizer produces belongs to a non-empty id and has each of the six
  dimensions in its closed range; every non-empty id that encodes, however long and
  whatever its code points, gets such a row.  The empty string gets none.
\<close>

theorem synthesis_in_range:
  "(\<forall>f \<in> set (audio_features vs g).
       uri f \<noteq> []
     \<and> 2 / 10 \<le> danceability f \<and> danceability f \<le> 9 / 10
     \<and> 1 / 10 \<le> energy f \<and> energy f \<le> 1
     \<and> 1 / 10 \<le> valence f \<and> valence f \<le> 9 / 10
     \<and> 2 / 100 \<le> speechiness f \<and> speechiness f \<le> 2 / 10
     \<and> 0 \<le> acousticness f \<and> acousticness f \<le> 1
     \<and> 0 \<le> instrumentalness f \<and> instrumentalness f \<le> 8 / 10)
   \<and> (\<forall>u. Str u \<in> set vs \<and> u \<noteq> [] \<and> encode u \<noteq> None
          \<longrightarrow> (\<exists>f \<in> set (audio_features vs g). uri f = u))"
proof (rule conjI)
  have a: "uri f \<noteq> []
     \<and> 2 / 10 \<le> danceability f \<and> danceability f \<le> 9 / 10
     \<and> 1 / 10 \<le> energy f \<and> energy f \<le> 1
     \<and> 1 / 10 \<le> valence f \<and> valence f \<le> 9 / 10
     \<and> 2 / 100 \<le> speechiness f \<and> speechiness f \<le> 2 / 10
     \<and> 0 \<le> acousticness f \<and> acousticness f \<le> 1
     \<and> 0 \<le> instrumentalness f \<and> instrumentalness f \<le> 8 / 10"
    if "f \<in> set (audio_features vs g)" for f
  proof -
    from that obtain v where "seeded_features v = Some f" by (auto simp: set_audio_features)
    then obtain u bs where f: "u \<noteq> []" "f = fst (draw_features u (mt19937_seed (uri_seed bs)))"
      by (auto simp: seeded_features_Some)
    then have u: "uri f = u" by (simp add: draw_features_uri)
    show ?thesis using draw_features_ranges[OF f(2)] u f(1) by simp
  qed
  then show "\<forall>f \<in> set (audio_features vs g).
       uri f \<noteq> []
     \<and> 2 / 10 \<le> danceability f \<and> danceability f \<le> 9 / 10
     \<and> 1 / 10 \<le> energy f \<and> energy f \<le> 1
     \<and> 1 / 10 \<le> valence f \<and> valence f \<le> 9 / 10
     \<and> 2 / 100 \<le> speechiness f \<and> speechiness f \<le> 2 / 10
     \<and> 0 \<le> acousticness f \<and> acousticness f \<le> 1
     \<and> 0 \<le> instrumentalness f \<and> instrumentalness f \<le> 8 / 10"
    by (rule ballI)
next
  have b: "\<exists>f \<in> set (audio_features vs g). uri f = u"
    if a: "Str u \<in> set vs \<and> u \<noteq> [] \<and> encode u \<noteq> None" for u
  proof -
    from a obtain bs where "encode u = Some bs" by auto
    with a have "seeded_features (Str u)
        = Some (fst (draw_features u (mt19937_seed (uri_seed bs))))"
      by (simp add: seeded_features_def)
    with a have "fst (draw_features u (mt19937_seed (uri_seed bs))) \<in> set (audio_features vs g)"
      by (auto simp: set_audio_features)
    then show ?thesis using draw_features_uri by blast
  qed
  then show "\<forall>u. Str u \<in> set vs \<and> u \<noteq> [] \<and> encode u \<noteq> None
          \<longrightarrow> (\<exists>f \<in> set (audio_features vs g). uri f = u)"
    by (intro allI impI)
qed
theorem synthesis_in_range_witness:
  "Str track_ab \<in> set [Str [], Str track_ab] \<and> track_ab \<noteq> [] \<and> encode track_ab \<noteq> None
   \<and> (\<exists>f \<in> set (audio_features [Str [], Str track_ab] (mt19937_seed 1)).
         uri f = track_ab
       \<and> 2 / 10 \<le> danceability f \<and> danceability f \<le> 9 / 10
       \<and> 1 / 10 \<le> energy f \<and> energy f \<le> 1
       \<and> 1 / 10 \<le> valence f \<and> valence f \<le> 9 / 10
       \<and> 2 / 100 \<le> speechiness f \<and> speechiness f \<le> 2 / 10
       \<and> 0 \<le> acousticness f \<and> acousticness f \<le> 1
       \<and> 0 \<le> instrumentalness f \<and> instrumentalness f \<le> 8 / 10)"
proof -
  let ?vs = "[Str [], Str track_ab]" and ?g = "mt19937_seed 1"
  have a: "Str track_ab \<in> set ?vs \<and> track_ab \<noteq> [] \<and> encode track_ab \<noteq> None"
    by (simp add: track_ab_nonempty encode_track_ab)
  note t = synthesis_in_range[of ?vs ?g]
  from t a obtain f where f: "f \<in> set (audio_features ?vs ?g)" "uri f = track_ab" by blast
  from t f(1) have "2 / 10 \<le> danceability f \<and> danceability f \<le> 9 / 10
       \<and> 1 / 10 \<le> energy f \<and> energy f \<le> 1
       \<and> 1 / 10 \<le> valence f \<and> valence f \<le> 9 / 10
       \<and> 2 / 100 \<le> speechiness f \<and> speechiness f \<le> 2 / 10
       \<and> 0 \<le> acousticness f \<and> acousticness f \<le> 1
       \<and> 0 \<le> instrumentalness f \<and> instrumentalness f \<le> 8 / 10" by blast
  with f a show ?thesis by blast
qed

section \<open>The enriched table\<close>

lemma doubles_7:
  "doubles 7 g0 =
     (let g1 = snd (mt19937_next_double g0); g2 = snd (mt19937_next_double g1);
          g3 = snd (mt19937_next_double g2); g4 = snd (mt19937_next_double g3);
          g5 = snd (mt19937_next_double g4); g6 = snd (mt19937_next_double g5)
      in [fst (mt19937_next_double g0), fst (mt19937_next_double g1),
          fst (mt19937_next_double g2), fst (mt19937_next_double g3),
          fst (mt19937_next_double g4), fst (mt19937_next_double g5),
          fst (mt19937_next_double g6)])"
  by (simp add: eval_nat_numeral split_beta Let_def)

lemma draw_features_doubles:
  fixes f :: feature
  assumes "f = fst (draw_features u g0)" and "d = doubles 7 g0"
  shows "danceability f = 2 / 10 + 7 / 10 * d ! 0"
    and "energy f = 1 / 10 + 9 / 10 * d ! 1"
    and "valence f = 1 / 10 + 8 / 10 * d ! 2"
    and "tempo f = 70 + 110 * d ! 3"
    and "speechiness f = 2 / 100 + 18 / 100 * d ! 4"
    and "acousticness f = d ! 5"
    and "instrumentalness f = 8 / 10 * d ! 6"
  unfolding assms doubles_7
  by (simp_all add: draw_features_def split_beta Let_def uniform_value)

lemma draw_six_dimensions_doubles:
  assumes "d = doubles 7 g0"
  shows "draw_six_dimensions g0 =
     (2 / 10 + 7 / 10 * d ! 0, 1 / 10 + 9 / 10 * d ! 1, 1 / 10 + 8 / 10 * d ! 2,
      2 / 100 + 18 / 100 * d ! 3, d ! 4, 8 / 10 * d ! 5)"
  unfolding assms doubles_7
  by (simp add: draw_six_dimensions_def split_beta Let_def uniform_value)

lemma merge_left_Some:
  assumes "(l, Some r) \<in> set (merge_left kl kr ls rs)"
  shows "l \<in> set ls \<and> r \<in> set rs \<and> kr r = kl l"
proof -
  from assms obtain l' where l': "l' \<in> set ls"
    "(l, Some r) \<in> set (case filter (\<lambda>r. kr r = kl l') rs of
                           [] \<Rightarrow> [(l', None)] | ms \<Rightarrow> map (\<lambda>r. (l', Some r)) ms)"
    by (auto simp: merge_left_def)
  then have "l = l' \<and> r \<in> set (filter (\<lambda>r. kr r = kl l') rs)"
    by (cases "filter (\<lambda>r. kr r = kl l') rs") auto
  with l'(1) show ?thesis by auto
qed

lemma unique_acc_set: "set (unique_acc seen xs) = set seen \<union> set xs"
  by (induction xs arbitrary: seen) auto

lemma unique_acc_distinct: "distinct seen \<Longrightarrow> distinct (unique_acc seen xs)"
  by (induction xs arbitrary: seen) auto

lemma unique_set: "set (unique xs) = set xs"
  by (simp add: unique_def unique_acc_set)

lemma unique_distinct: "distinct (unique xs)"
  by (simp add: unique_def unique_acc_distinct)

lemma filter_seeded:
  "filter (\<lambda>f. Str (uri f) = v) (List.map_filter seeded_features U)
     = List.map_filter seeded_features (filter (\<lambda>v'. v' = v) U)"
proof (induction U)
  case Nil
  then show ?case by simp
next
  case (Cons a U)
  show ?case
  proof (cases "seeded_features a")
    case None
    with Cons show ?thesis by auto
  next
    case (Some f)
    then have "a = Str (uri f)" by (rule seeded_features_uri)
    with Some Cons show ?thesis by auto
  qed
qed

lemma merge_row:
  assumes "distinct U" and "v \<in> set U"
  shows "(case filter (\<lambda>f. Str (uri f) = v) (List.map_filter seeded_features U) of
            [] \<Rightarrow> [(e, None)] | ms \<Rightarrow> map (\<lambda>r. (e, Some r)) ms)
         = [(e, seeded_features v)]"
  using assms by (cases "seeded_features v") (simp_all add: filter_seeded filter_eq_distinct)

lemma enriched_rows:
  "merge_left spotify_track_uri (\<lambda>f. Str (uri f)) df
      (audio_features (unique (map spotify_track_uri df)) g)
   = map (\<lambda>e. (e, seeded_features (spotify_track_uri e))) df"
proof -
  let ?U = "unique (map spotify_track_uri df)"
  have m: "map (\<lambda>l. case filter (\<lambda>f. Str (uri f) = spotify_track_uri l)
                          (List.map_filter seeded_features ?U) of
                    [] \<Rightarrow> [(l, None)] | ms \<Rightarrow> map (\<lambda>r. (l, Some r)) ms) df
        = map (\<lambda>e. [(e, seeded_features (spotify_track_uri e))]) df"
    by (rule map_cong[OF refl]) (simp add: merge_row unique_distinct unique_set)
  show ?thesis
    unfolding merge_left_def audio_features_eq m by (rule concat_map_single)
qed

lemma add_audio_features_fst:
  assumes "has_uri_column df" and "audio_features (unique (map spotify_track_uri df)) g \<noteq> []"
  shows "fst (add_audio_features df g)
           = Enriched (map (\<lambda>e. (e, seeded_features (spotify_track_uri e))) df)"
proof -
  have "fst (add_audio_features df g)
      = Enriched (merge_left spotify_track_uri (\<lambda>f. Str (uri f)) df
                    (audio_features (unique (map spotify_track_uri df)) g))"
    using assms by (simp add: add_audio_features_def audio_features_def split_beta Let_def)
  then show ?thesis by (simp only: enriched_rows)
qed

lemma heard_uri: "spotify_track_uri (heard h ms u) = u"
  by (simp add: heard_def at_hour_def)

lemma seeded_Null: "seeded_features Null = None"
  by (simp add: seeded_features_def)

lemma add_audio_features_sample:
  "fst (add_audio_features [heard 8 1000000 (Str track_ab), heard 9 500000 (Str track_ab),
                            heard 23 2000000 Null] (mt19937_seed 0))
   = Enriched
       [(heard 8 1000000 (Str track_ab), Some (fst (draw_features track_ab (mt19937_seed 1798988130)))),
        (heard 9 500000 (Str track_ab), Some (fst (draw_features track_ab (mt19937_seed 1798988130)))),
        (heard 23 2000000 Null, None)]"
proof -
  let ?df = "[heard 8 1000000 (Str track_ab), heard 9 500000 (Str track_ab), heard 23 2000000 Null]"
  have u: "unique (map spotify_track_uri ?df) = [Str track_ab, Null]"
    by (simp add: unique_def heard_uri)
  have c: "has_uri_column ?df" by (simp add: has_uri_column_def heard_uri)
  have fs: "audio_features (unique (map spotify_track_uri ?df)) (mt19937_seed 0) \<noteq> []"
    unfolding u audio_features_eq by (simp add: seeded_track_ab)
  show ?thesis
    unfolding add_audio_features_fst[OF c fs]
    by (simp add: heard_uri seeded_track_ab seeded_Null)
qed

lemma sum_list_delta_absent:
  fixes w :: "'a \<Rightarrow> 'b::comm_semiring_1"
  shows "x \<notin> set U \<Longrightarrow> sum_list (map (\<lambda>v. if x = v then w v else 0) U) = 0"
  by (induction U) auto

lemma sum_list_delta:
  fixes w :: "'a \<Rightarrow> 'b::comm_semiring_1"
  assumes "distinct U" and "x \<in> set U"
  shows "sum_list (map (\<lambda>v. if x = v then w v else 0) U) = w x"
  using assms by (induction U) (auto simp: sum_list_delta_absent)

lemma sum_list_by_count:
  fixes w :: "'a \<Rightarrow> 'b::comm_semiring_1"
  assumes "distinct U" and "set xs \<subseteq> set U"
  shows "sum_list (map w xs) = sum_list (map (\<lambda>v. of_nat (count_list xs v) * w v) U)"
  using assms(2)
proof (induction xs)
  case Nil
  then show ?case by simp
next
  case (Cons x xs)
  have "sum_list (map (\<lambda>v. of_nat (count_list (x # xs) v) * w v) U)
      = sum_list (map (\<lambda>v. of_nat (count_list xs v) * w v + (if x = v then w v else 0)) U)"
    by (rule arg_cong[where f = sum_list], rule map_cong[OF refl]) (simp add: algebra_simps)
  also have "\<dots> = sum_list (map (\<lambda>v. of_nat (count_list xs v) * w v) U)
                  + sum_list (map (\<lambda>v. if x = v then w v else 0) U)"
    by (rule sum_list_addf)
  also have "\<dots> = sum_list (map w xs) + w x"
    using Cons sum_list_delta[OF assms(1), of x w] by simp
  finally show ?case by (simp add: add.commute)
qed

lemma sum_over_seeded:
  fixes c :: "feature \<Rightarrow> 'b::comm_semiring_1"
  shows "sum_list (map (\<lambda>v. of_nat (k v) * (case seeded_features v of Some f \<Rightarrow> c f | None \<Rightarrow> 0)) U)
       = sum_list (map (\<lambda>f. of_nat (k (Str (uri f))) * c f) (List.map_filter seeded_features U))"
proof (induction U)
  case Nil
  then show ?case by simp
next
  case (Cons a U)
  show ?case
  proof (cases "seeded_features a")
    case None
    with Cons show ?thesis by simp
  next
    case (Some f)
    then have "a = Str (uri f)" by (rule seeded_features_uri)
    with Some Cons show ?thesis by simp
  qed
qed

lemma sum_present:
  fixes c :: "feature \<Rightarrow> 'b::comm_semiring_1"
  shows "sum_list (List.map_filter (\<lambda>e. map_option c (s e)) df)
       = sum_list (map (\<lambda>e. case s e of Some f \<Rightarrow> c f | None \<Rightarrow> 0) df)"
  by (induction df) (auto split: option.splits)

lemma length_present:
  "length (List.map_filter (\<lambda>e. map_option c (s e)) df)
     = sum_list (map (\<lambda>e. case s e of Some f \<Rightarrow> 1 | None \<Rightarrow> 0) df)"
  by (induction df) (auto split: option.splits)

lemma plays_count: "plays df u = count_list (map spotify_track_uri df) (Str u)"
  by (induction df) (auto simp: plays_def)

lemma weighted_sum:
  fixes c :: "feature \<Rightarrow> 'b::comm_semiring_1"
  shows "sum_list (map (\<lambda>e. case seeded_features (spotify_track_uri e) of
                               Some f \<Rightarrow> c f | None \<Rightarrow> 0) df)
       = sum_list (map (\<lambda>f. of_nat (plays df (uri f)) * c f)
                       (audio_features (unique (map spotify_track_uri df)) g))"
proof -
  let ?xs = "map spotify_track_uri df"
  let ?w = "\<lambda>v. case seeded_features v of Some f \<Rightarrow> c f | None \<Rightarrow> 0"
  have "sum_list (map (\<lambda>e. ?w (spotify_track_uri e)) df) = sum_list (map ?w ?xs)"
    by (simp add: comp_def)
  also have "\<dots> = sum_list (map (\<lambda>v. of_nat (count_list ?xs v) * ?w v) (unique ?xs))"
    by (rule sum_list_by_count) (simp_all add: unique_distinct unique_set)
  also have "\<dots> = sum_list (map (\<lambda>f. of_nat (count_list ?xs (Str (uri f))) * c f)
                        (List.map_filter seeded_features (unique ?xs)))"
    by (rule sum_over_seeded)
  finally show ?thesis by (simp add: audio_features_eq plays_count)
qed

lemma column_enriched:
  "List.map_filter id (column c (map (\<lambda>e. (e, seeded_features (spotify_track_uri e))) df))
     = List.map_filter (\<lambda>e. map_option c (seeded_features (spotify_track_uri e))) df"
  by (induction df) (auto simp: column_def split: option.splits)

lemma mean_by_plays:
  assumes "rows = map (\<lambda>e. (e, seeded_features (spotify_track_uri e))) df"
    and "fs = audio_features (unique (map spotify_track_uri df)) g"
  shows "series_mean (column c rows) = play_weighted_mean c df fs"
proof -
  let ?vals = "List.map_filter (\<lambda>e. map_option c (seeded_features (spotify_track_uri e))) df"
  have s: "sum_list ?vals = sum_list (map (\<lambda>f. of_nat (plays df (uri f)) * c f) fs)"
    unfolding assms(2) sum_present by (rule weighted_sum)
  have "length ?vals = sum_list (map (\<lambda>f. of_nat (plays df (uri f)) * (1::nat)) fs)"
    unfolding assms(2) length_present by (rule weighted_sum[where c = "\<lambda>_. 1::nat"])
  then have l: "length ?vals = sum_list (map (\<lambda>f. plays df (uri f)) fs)" by simp
  have e: "?vals = [] \<longleftrightarrow> length ?vals = 0" by simp
  show ?thesis
    unfolding series_mean_def play_weighted_mean_def assms(1) column_enriched Let_def e s l
    by simp
qed

lemma add_audio_features_Enriched:
  assumes "fst (add_audio_features df g) = Enriched rows"
  shows "rows = map (\<lambda>e. (e, seeded_features (spotify_track_uri e))) df"
proof -
  from assms have "rows = merge_left spotify_track_uri (\<lambda>f. Str (uri f)) df
      (fst (features_loop (unique (map spotify_track_uri df)) g))"
    by (auto simp: add_audio_features_def Let_def split_beta split: if_splits)
  then show ?thesis using enriched_rows[of df g] by (simp add: audio_features_def)
qed

lemma sample_unique_features:
  "audio_features (unique (map spotify_track_uri
      [heard 8 1000000 (Str track_ab), heard 9 500000 (Str track_ab), heard 23 2000000 Null]))
      (mt19937_seed 0)
   = [fst (draw_features track_ab (mt19937_seed 1798988130))]"
  by (simp add: audio_features_eq unique_def heard_uri seeded_track_ab seeded_Null)

lemma sample_weighted_mean:
  "play_weighted_mean c
      [heard 8 1000000 (Str track_ab), heard 9 500000 (Str track_ab), heard 23 2000000 Null]
      [fst (draw_features track_ab (mt19937_seed 1798988130))]
   = Finite (c (fst (draw_features track_ab (mt19937_seed 1798988130))))"
  by (simp add: play_weighted_mean_def plays_def heard_uri draw_features_uri)

section \<open>The generator, evaluated\<close>

text \<open>
  The twist of the key changes position \<open>j\<close> at step \<open>j\<close> only, so the first outputs
  after seeding can be computed from a few key words.  For seed 0 the first double is
  0.5488135039273248, the value numpy gives after \<open>np.random.seed(0)\<close>.
\<close>

lemma gen_loop_length: "length (gen_loop n i k) = length k"
  by (induction n arbitrary: i k) auto

lemma gen_loop_before: "j < i \<Longrightarrow> gen_loop n i k ! j = k ! j"
  by (induction n arbitrary: i k) auto

lemma gen_loop_beyond: "i + m \<le> j \<Longrightarrow> gen_loop m i k ! j = k ! j"
  by (induction m arbitrary: i k) auto

lemma gen_loop_split: "gen_loop (m + n) i k = gen_loop n (i + m) (gen_loop m i k)"
  by (induction m arbitrary: i k) auto

lemma gen_loop_early:
  assumes "length k = 624" and "j < 227"
  shows "gen_loop 624 0 k ! j = twist (k ! j) (k ! (j + 1)) (k ! (j + 397))"
proof -
  let ?k' = "gen_loop j 0 k"
  obtain n where n: "624 - j = Suc n" using assms(2) by (cases "624 - j") auto
  then have "624 = j + Suc n" using assms(2) by simp
  then have "gen_loop 624 0 k = gen_loop (Suc n) j ?k'"
    using gen_loop_split[of j "Suc n" 0 k] by simp
  also have "\<dots> ! j = (?k'[j := twist (?k' ! j) (?k' ! ((j + 1) mod 624)) (?k' ! ((j + 397) mod 624))]) ! j"
    by (simp add: gen_loop_before)
  also have "\<dots> = twist (?k' ! j) (?k' ! ((j + 1) mod 624)) (?k' ! ((j + 397) mod 624))"
    using assms by (simp add: gen_loop_length)
  also have "\<dots> = twist (k ! j) (k ! (j + 1)) (k ! (j + 397))"
    using assms(2) by (simp add: gen_loop_beyond)
  finally show ?thesis .
qed

lemma seed_loop_length: "length (seed_loop n s p) = n"
  by (induction n arbitrary: s p) auto

lemma seed_loop_prefix: "i < n \<Longrightarrow> seed_loop (n + m) s p ! i = seed_loop n s p ! i"
proof (induction n arbitrary: s p i)
  case 0
  then show ?case by simp
next
  case (Suc n)
  then show ?case by (cases i) auto
qed

lemma twisted_key:
  assumes "j < 14"
  shows "temper (gen_loop 624 0 (seed_loop 624 s 0) ! j) = first_outputs s ! j"
proof -
  let ?k = "seed_loop 624 s 0" and ?p = "seed_loop 411 s 0"
  have p: "?k ! i = ?p ! i" if "i < 411" for i
    using seed_loop_prefix[OF that, of 213 s 0] by simp
  have "gen_loop 624 0 ?k ! j = twist (?k ! j) (?k ! (j + 1)) (?k ! (j + 397))"
    using assms by (intro gen_loop_early) (simp_all add: seed_loop_length)
  also have "\<dots> = twist (?p ! j) (?p ! (j + 1)) (?p ! (j + 397))"
    using assms by (simp add: p)
  finally have g: "gen_loop 624 0 ?k ! j = twist (?p ! j) (?p ! (j + 1)) (?p ! (j + 397))" .
  have "map (\<lambda>j. temper (twist (?p ! j) (?p ! (j + 1)) (?p ! (j + 397)))) [0..<14] ! j
      = temper (twist (?p ! ([0..<14] ! j)) (?p ! ([0..<14] ! j + 1)) (?p ! ([0..<14] ! j + 397)))"
    using assms by (intro nth_map) simp
  moreover have "[0..<14] ! j = j" using assms nth_upt[of 0 j 14] by simp
  ultimately show ?thesis unfolding first_outputs_def outputs_from_def g by simp
qed

lemma next_at:
  assumes "p < 624"
  shows "mt19937_next \<lparr>key = k, pos = p\<rparr> = (temper (k ! p), \<lparr>key = k, pos = p + 1\<rparr>)"
  using assms by (simp add: mt19937_next_def)

lemma next_seeded:
  "mt19937_next (mt19937_seed s)
     = (temper (gen_loop 624 0 (seed_loop 624 s 0) ! 0),
        \<lparr>key = gen_loop 624 0 (seed_loop 624 s 0), pos = 1\<rparr>)"
  by (simp add: mt19937_next_def mt19937_seed_def mt19937_gen_def)

lemma next_double_at:
  assumes "p + 1 < 624"
  shows "mt19937_next_double \<lparr>key = k, pos = p\<rparr>
           = (double_of_words (temper (k ! p)) (temper (k ! (p + 1))), \<lparr>key = k, pos = p + 2\<rparr>)"
proof -
  have "mt19937_next \<lparr>key = k, pos = p\<rparr> = (temper (k ! p), \<lparr>key = k, pos = p + 1\<rparr>)"
    using assms by (intro next_at) simp
  moreover have "mt19937_next \<lparr>key = k, pos = p + 1\<rparr>
      = (temper (k ! (p + 1)), \<lparr>key = k, pos = p + 1 + 1\<rparr>)"
    using assms by (intro next_at) simp
  ultimately show ?thesis
    by (simp add: mt19937_next_double_def double_of_words_def)
qed

lemma next_double_seeded:
  "mt19937_next_double (mt19937_seed s)
     = (double_of_words (temper (gen_loop 624 0 (seed_loop 624 s 0) ! 0))
                        (temper (gen_loop 624 0 (seed_loop 624 s 0) ! 1)),
        \<lparr>key = gen_loop 624 0 (seed_loop 624 s 0), pos = 2\<rparr>)"
  using next_at[of 1 "gen_loop 624 0 (seed_loop 624 s 0)"]
  by (simp add: mt19937_next_double_def next_seeded double_of_words_def)

lemma doubles_7_seeded:
  "doubles 7 (mt19937_seed s) =
     (let w = first_outputs s
      in [double_of_words (w ! 0) (w ! 1), double_of_words (w ! 2) (w ! 3),
          double_of_words (w ! 4) (w ! 5), double_of_words (w ! 6) (w ! 7),
          double_of_words (w ! 8) (w ! 9), double_of_words (w ! 10) (w ! 11),
          double_of_words (w ! 12) (w ! 13)])"
proof -
  let ?k = "gen_loop 624 0 (seed_loop 624 s 0)"
  note n = next_double_seeded[of s]
    next_double_at[of 2 ?k, simplified] next_double_at[of 4 ?k, simplified]
    next_double_at[of 6 ?k, simplified] next_double_at[of 8 ?k, simplified]
    next_double_at[of 10 ?k, simplified] next_double_at[of 12 ?k, simplified]
  have t: "temper (?k ! 0) = first_outputs s ! 0" "temper (?k ! 1) = first_outputs s ! 1"
    "temper (?k ! 2) = first_outputs s ! 2" "temper (?k ! 3) = first_outputs s ! 3"
    "temper (?k ! 4) = first_outputs s ! 4" "temper (?k ! 5) = first_outputs s ! 5"
    "temper (?k ! 6) = first_outputs s ! 6" "temper (?k ! 7) = first_outputs s ! 7"
    "temper (?k ! 8) = first_outputs s ! 8" "temper (?k ! 9) = first_outputs s ! 9"
    "temper (?k ! 10) = first_outputs s ! 10" "temper (?k ! 11) = first_outputs s ! 11"
    "temper (?k ! 12) = first_outputs s ! 12" "temper (?k ! 13) = first_outputs s ! 13"
    by (rule twisted_key, simp)+
  show ?thesis
    unfolding doubles_7 Let_def by (simp add: n t twisted_key[of "Suc 0" s, simplified])
qed

lemma upt_14: "[0..<14] = [0, 1, 2, 3, 4, 5, 6, 7, 8, 9, 10, 11, 12, 13]"
  by code_simp

lemma keys_seed_0:
  "map (\<lambda>i. seed_loop 411 0 0 ! i)
     [0, 1, 2, 3, 4, 5, 6, 7, 8, 9, 10, 11, 12, 13, 14,
      397, 398, 399, 400, 401, 402, 403, 404, 405, 406, 407, 408, 409, 410] =
   [0, 1, 1812433255, 1900727105, 1208447044, 2481403966, 4042607538,
  337614300, 3232553940, 1018809052, 3202401494, 1775180719, 3192392114,
  594215549, 184016991, 145341901, 3995441263, 3462066219, 2239637848,
  1214086163, 2428868268, 1650037305, 1545513388, 1621198806, 4232947817,
  1823092073, 256414624, 1745018809, 1357102386]"
  by code_simp

lemma first_twisted_0:
  "first_outputs 0 =
     [temper (twist 0 1 145341901), temper (twist 1 1812433255 3995441263),
      temper (twist 1812433255 1900727105 3462066219),
      temper (twist 1900727105 1208447044 2239637848),
      temper (twist 1208447044 2481403966 1214086163),
      temper (twist 2481403966 4042607538 2428868268),
      temper (twist 4042607538 337614300 1650037305),
      temper (twist 337614300 3232553940 1545513388),
      temper (twist 3232553940 1018809052 1621198806),
      temper (twist 1018809052 3202401494 4232947817),
      temper (twist 3202401494 1775180719 1823092073),
      temper (twist 1775180719 3192392114 256414624),
      temper (twist 3192392114 594215549 1745018809),
      temper (twist 594215549 184016991 1357102386)]"
  using keys_seed_0
  by (simp add: first_outputs_def outputs_from_def upt_14 numeral_2_eq_2[symmetric])

lemma first_outputs_0:
  "first_outputs 0 =
     [2357136044, 2546248239, 3071714933, 3626093760, 2588848963, 3684848379,
      2340255427, 3638918503, 1819583497, 2678185683, 2774094101, 1650906866,
      1879422756, 1277901399]"
  unfolding first_twisted_0
  by (simp add: temper_def twist_def UPPER_MASK_def LOWER_MASK_def MATRIX_A_def Let_def)

lemma doubles_seed_0:
  "doubles 7 (mt19937_seed 0) =
     [617909072945749 / 1125899906842624, 6441853127788339 / 9007199254740992,
      5429209831737675 / 9007199254740992, 4907871399810549 / 9007199254740992,
      3815943192872827 / 9007199254740992, 5817696973855579 / 9007199254740992,
      3941435203169513 / 9007199254740992]"
  unfolding doubles_7_seeded first_outputs_0 Let_def
  by (simp add: double_of_words_def)

lemma keys_track_ab:
  "map (\<lambda>i. seed_loop 411 1798988130 0 ! i)
     [0, 1, 2, 3, 4, 5, 6, 7, 8, 9, 10, 11, 12, 13, 14,
      397, 398, 399, 400, 401, 402, 403, 404, 405, 406, 407, 408, 409, 410] =
     [1798988130, 4191905552, 3544044929, 490065485, 1908185445, 792397945,
      2166495427, 1257901356, 3186575305, 2539648544, 646073716, 4211581647,
      2746640008, 966545023, 438693673, 2975381714, 1083718558, 2840632906,
      2776300536, 1983132979, 527351884, 4256074639, 1600060368, 2213753866, 33804478,
      3010005645, 2634068739, 2719558142, 3779685894]"
  by code_simp

lemma first_twisted_track_ab:
  "first_outputs 1798988130 =
     [temper (twist 1798988130 4191905552 2975381714),
      temper (twist 4191905552 3544044929 1083718558),
      temper (twist 3544044929 490065485 2840632906),
      temper (twist 490065485 1908185445 2776300536),
      temper (twist 1908185445 792397945 1983132979),
      temper (twist 792397945 2166495427 527351884),
      temper (twist 2166495427 1257901356 4256074639),
      temper (twist 1257901356 3186575305 1600060368),
      temper (twist 3186575305 2539648544 2213753866),
      temper (twist 2539648544 646073716 33804478),
      temper (twist 646073716 4211581647 3010005645),
      temper (twist 4211581647 2746640008 2634068739),
      temper (twist 2746640008 966545023 2719558142),
      temper (twist 966545023 438693673 3779685894)]"
  using keys_track_ab
  by (simp add: first_outputs_def outputs_from_def upt_14 numeral_2_eq_2[symmetric])

lemma first_outputs_track_ab:
  "first_outputs 1798988130 =
     [2032990000, 2675851538, 3623973866, 1491502764, 3346428973, 1436660213,
      3645683003, 2329189475, 174425754, 3093361730, 3329012451, 3373022196,
      1719077108, 853121950]"
  unfolding first_twisted_track_ab
  by (simp add: temper_def twist_def UPPER_MASK_def LOWER_MASK_def MATRIX_A_def Let_def)

lemma doubles_track_ab:
  "doubles 7 (mt19937_seed 1798988130) =
     [1065872263183937 / 2251799813685248, 3800012021681421 / 4503599627370496,
      7017970208769735 / 9007199254740992, 7645551380877937 / 9007199254740992,
      365797312660433 / 9007199254740992, 6981445166051567 / 9007199254740992,
      1802582983291703 / 4503599627370496]"
  unfolding doubles_7_seeded first_outputs_track_ab Let_def
  by (simp add: double_of_words_def)

lemma numpy_known_answer:
  "fst (np_random_uniform 0 1 (np_random_seed 0 g)) = 617909072945749 / 1125899906842624"
proof -
  have "doubles 7 (mt19937_seed 0) ! 0 = fst (mt19937_next_double (mt19937_seed 0))"
    unfolding doubles_7 Let_def by simp
  then show ?thesis
    unfolding doubles_seed_0 by (simp add: uniform_value np_random_seed_def)
qed

text \<open>
  The tempo.  A row of the enriched table that has features carries a tempo: the fourth of the
  seven doubles of the generator seeded from the row's track id, scaled to
  \<open>[70, 180]\<close>.  Speechiness, acousticness and instrumentalness come from the fifth,
  sixth and seventh doubles.  Six draws without the tempo give the same danceability,
  energy and valence, and take the other three from the fourth, fifth and sixth doubles:
  each differs from the code's value exactly when the two doubles involved differ.
\<close>

lemma tempo_is_fourth_draw:
  assumes "fst (add_audio_features df g) = Enriched rows" and "(e, Some f) \<in> set rows"
  shows "\<exists>bs. spotify_track_uri e = Str (uri f) \<and> uri f \<noteq> [] \<and> encode (uri f) = Some bs
           \<and> (let d = doubles 7 (mt19937_seed (uri_seed bs)) in
                danceability f = 2 / 10 + 7 / 10 * d ! 0
              \<and> energy f = 1 / 10 + 9 / 10 * d ! 1
              \<and> valence f = 1 / 10 + 8 / 10 * d ! 2
              \<and> tempo f = 70 + 110 * d ! 3 \<and> 70 \<le> tempo f \<and> tempo f \<le> 180
              \<and> speechiness f = 2 / 100 + 18 / 100 * d ! 4
              \<and> acousticness f = d ! 5
              \<and> instrumentalness f = 8 / 10 * d ! 6
              \<and> draw_six_dimensions (mt19937_seed (uri_seed bs))
                  = (danceability f, energy f, valence f,
                     2 / 100 + 18 / 100 * d ! 3, d ! 4, 8 / 10 * d ! 5)
              \<and> (2 / 100 + 18 / 100 * d ! 3 = speechiness f \<longleftrightarrow> d ! 3 = d ! 4)
              \<and> (d ! 4 = acousticness f \<longleftrightarrow> d ! 4 = d ! 5)
              \<and> (8 / 10 * d ! 5 = instrumentalness f \<longleftrightarrow> d ! 5 = d ! 6))"
proof -
  have "rows = map (\<lambda>e. (e, seeded_features (spotify_track_uri e))) df"
    using assms(1) by (rule add_audio_features_Enriched)
  with assms(2) have sf: "seeded_features (spotify_track_uri e) = Some f" by auto
  then obtain u bs where u: "spotify_track_uri e = Str u" "u \<noteq> []" "encode u = Some bs"
    "f = fst (draw_features u (mt19937_seed (uri_seed bs)))"
    by (auto simp: seeded_features_Some)
  then have uf: "uri f = u" by (simp add: draw_features_uri)
  define d where "d = doubles 7 (mt19937_seed (uri_seed bs))"
  note v = draw_features_doubles[OF u(4) d_def]
  have t: "70 \<le> tempo f \<and> tempo f \<le> 180" using draw_features_ranges(4)[OF u(4)] .
  have six: "draw_six_dimensions (mt19937_seed (uri_seed bs))
                  = (danceability f, energy f, valence f,
                     2 / 100 + 18 / 100 * d ! 3, d ! 4, 8 / 10 * d ! 5)"
    unfolding draw_six_dimensions_doubles[OF d_def] v by simp
  have "spotify_track_uri e = Str (uri f) \<and> uri f \<noteq> [] \<and> encode (uri f) = Some bs"
    using u uf by simp
  moreover have "danceability f = 2 / 10 + 7 / 10 * d ! 0
              \<and> energy f = 1 / 10 + 9 / 10 * d ! 1
              \<and> valence f = 1 / 10 + 8 / 10 * d ! 2
              \<and> tempo f = 70 + 110 * d ! 3 \<and> 70 \<le> tempo f \<and> tempo f \<le> 180
              \<and> speechiness f = 2 / 100 + 18 / 100 * d ! 4
              \<and> acousticness f = d ! 5
              \<and> instrumentalness f = 8 / 10 * d ! 6
              \<and> draw_six_dimensions (mt19937_seed (uri_seed bs))
                  = (danceability f, energy f, valence f,
                     2 / 100 + 18 / 100 * d ! 3, d ! 4, 8 / 10 * d ! 5)
              \<and> (2 / 100 + 18 / 100 * d ! 3 = speechiness f \<longleftrightarrow> d ! 3 = d ! 4)
              \<and> (d ! 4 = acousticness f \<longleftrightarrow> d ! 4 = d ! 5)
              \<and> (8 / 10 * d ! 5 = instrumentalness f \<longleftrightarrow> d ! 5 = d ! 6)"
    using t six by (simp add: v)
  ultimately show ?thesis unfolding d_def Let_def by blast
qed

lemma tempo_of_sample_track:
  "fst (add_audio_features [heard 8 1000000 (Str track_ab), heard 9 500000 (Str track_ab),
                            heard 23 2000000 Null] (mt19937_seed 0))
   = Enriched
       [(heard 8 1000000 (Str track_ab), Some (fst (draw_features track_ab (mt19937_seed 1798988130)))),
        (heard 9 500000 (Str track_ab), Some (fst (draw_features track_ab (mt19937_seed 1798988130)))),
        (heard 23 2000000 Null, None)]
   \<and> (heard 8 1000000 (Str track_ab), Some (fst (draw_features track_ab (mt19937_seed 1798988130))))
      \<in> set [(heard 8 1000000 (Str track_ab), Some (fst (draw_features track_ab (mt19937_seed 1798988130)))),
        (heard 9 500000 (Str track_ab), Some (fst (draw_features track_ab (mt19937_seed 1798988130)))),
        (heard 23 2000000 Null, None)]
   \<and> tempo (fst (draw_features track_ab (mt19937_seed 1798988130))) = 735757299864221255 / 4503599627370496
   \<and> speechiness (fst (draw_features track_ab (mt19937_seed 1798988130))) = 12299375068684889 / 450359962737049600
   \<and> acousticness (fst (draw_features track_ab (mt19937_seed 1798988130))) = 6981445166051567 / 9007199254740992
   \<and> instrumentalness (fst (draw_features track_ab (mt19937_seed 1798988130))) = 1802582983291703 / 5629499534213120
   \<and> draw_six_dimensions (mt19937_seed 1798988130)
       = (2392941093931611 / 4503599627370496, 7740741564500657 / 9007199254740992,
          8143870115612359 / 11258999068426240, 3112686467305697 / 18014398509481984,
          365797312660433 / 9007199254740992, 6981445166051567 / 11258999068426240)"
proof -
  let ?f = "fst (draw_features track_ab (mt19937_seed 1798988130))"
  let ?e = "heard 8 1000000 (Str track_ab)"
  let ?rows = "[(?e, Some ?f), (heard 9 500000 (Str track_ab), Some ?f), (heard 23 2000000 Null, None)]"
  have m: "(?e, Some ?f) \<in> set ?rows" by simp
  from tempo_is_fourth_draw[OF add_audio_features_sample m]
  obtain bs where bs: "encode (uri ?f) = Some bs"
    and c: "(let d = doubles 7 (mt19937_seed (uri_seed bs)) in
                danceability ?f = 2 / 10 + 7 / 10 * d ! 0
              \<and> energy ?f = 1 / 10 + 9 / 10 * d ! 1
              \<and> valence ?f = 1 / 10 + 8 / 10 * d ! 2
              \<and> tempo ?f = 70 + 110 * d ! 3 \<and> 70 \<le> tempo ?f \<and> tempo ?f \<le> 180
              \<and> speechiness ?f = 2 / 100 + 18 / 100 * d ! 4
              \<and> acousticness ?f = d ! 5
              \<and> instrumentalness ?f = 8 / 10 * d ! 6
              \<and> draw_six_dimensions (mt19937_seed (uri_seed bs))
                  = (danceability ?f, energy ?f, valence ?f,
                     2 / 100 + 18 / 100 * d ! 3, d ! 4, 8 / 10 * d ! 5)
              \<and> (2 / 100 + 18 / 100 * d ! 3 = speechiness ?f \<longleftrightarrow> d ! 3 = d ! 4)
              \<and> (d ! 4 = acousticness ?f \<longleftrightarrow> d ! 4 = d ! 5)
              \<and> (8 / 10 * d ! 5 = instrumentalness ?f \<longleftrightarrow> d ! 5 = d ! 6))"
    by blast
  from bs have s: "uri_seed bs = 1798988130"
    by (simp add: draw_features_uri encode_track_ab seed_track_ab[symmetric])
  from c[unfolded s doubles_track_ab Let_def] have "tempo ?f = 735757299864221255 / 4503599627370496
   \<and> speechiness ?f = 12299375068684889 / 450359962737049600
   \<and> acousticness ?f = 6981445166051567 / 9007199254740992
   \<and> instrumentalness ?f = 1802582983291703 / 5629499534213120
   \<and> draw_six_dimensions (mt19937_seed 1798988130)
       = (2392941093931611 / 4503599627370496, 7740741564500657 / 9007199254740992,
          8143870115612359 / 11258999068426240, 3112686467305697 / 18014398509481984,
          365797312660433 / 9007199254740992, 6981445166051567 / 11258999068426240)"
    by simp
  with add_audio_features_sample m show ?thesis by (intro conjI) simp_all
qed

text \<open>
  C10.  The enriched table has one row per play event, each with the feature row of its
  track id or with empty feature cells.  The averaged features that the classifier
  receives are the means over those rows, empty cells left out: each track's value
  counts once per play of the track.
\<close>

theorem means_over_play_events:
  assumes "fst (add_audio_features df g) = Enriched rows"
  shows "(let fs = audio_features (unique (map spotify_track_uri df)) g in
          rows = map (\<lambda>e. (e, seeded_features (spotify_track_uri e))) df
        \<and> (\<exists>p. analyze_music_profile (Enriched rows) =
            Inr (p, \<lparr>mean_danceability = play_weighted_mean danceability df fs,
                     mean_energy = play_weighted_mean energy df fs,
                     mean_valence = play_weighted_mean valence df fs,
                     mean_speechiness = play_weighted_mean speechiness df fs,
                     mean_acousticness = play_weighted_mean acousticness df fs,
                     mean_instrumentalness = play_weighted_mean instrumentalness df fs\<rparr>)))"
proof -
  have r: "rows = map (\<lambda>e. (e, seeded_features (spotify_track_uri e))) df"
    using assms(1) by (rule add_audio_features_Enriched)
  have m: "series_mean (column c rows)
         = play_weighted_mean c df (audio_features (unique (map spotify_track_uri df)) g)" for c
    using r refl by (rule mean_by_plays)
  show ?thesis
    using r by (simp add: analyze_music_profile_def mean_features_def m[unfolded r] Let_def)
qed

theorem means_over_play_events_witness:
  "fst (add_audio_features [heard 8 1000000 (Str track_ab), heard 9 500000 (Str track_ab),
                            heard 23 2000000 Null] (mt19937_seed 0))
   = Enriched
       [(heard 8 1000000 (Str track_ab), Some (fst (draw_features track_ab (mt19937_seed 1798988130)))),
        (heard 9 500000 (Str track_ab), Some (fst (draw_features track_ab (mt19937_seed 1798988130)))),
        (heard 23 2000000 Null, None)]
   \<and> (\<exists>p. analyze_music_profile (Enriched
       [(heard 8 1000000 (Str track_ab), Some (fst (draw_features track_ab (mt19937_seed 1798988130)))),
        (heard 9 500000 (Str track_ab), Some (fst (draw_features track_ab (mt19937_seed 1798988130)))),
        (heard 23 2000000 Null, None)])
      = Inr (p, \<lparr>mean_danceability = Finite (danceability (fst (draw_features track_ab (mt19937_seed 1798988130)))),
                 mean_energy = Finite (energy (fst (draw_features track_ab (mt19937_seed 1798988130)))),
                 mean_valence = Finite (valence (fst (draw_features track_ab (mt19937_seed 1798988130)))),
                 mean_speechiness = Finite (speechiness (fst (draw_features track_ab (mt19937_seed 1798988130)))),
                 mean_acousticness = Finite (acousticness (fst (draw_features track_ab (mt19937_seed 1798988130)))),
                 mean_instrumentalness = Finite (instrumentalness (fst (draw_features track_ab (mt19937_seed 1798988130))))\<rparr>))"
proof -
  note t = means_over_play_events[OF add_audio_features_sample]
  have "\<exists>p. analyze_music_profile (Enriched
       [(heard 8 1000000 (Str track_ab), Some (fst (draw_features track_ab (mt19937_seed 1798988130)))),
        (heard 9 500000 (Str track_ab), Some (fst (draw_features track_ab (mt19937_seed 1798988130)))),
        (heard 23 2000000 Null, None)])
      = Inr (p, \<lparr>mean_danceability = Finite (danceability (fst (draw_features track_ab (mt19937_seed 1798988130)))),
                 mean_energy = Finite (energy (fst (draw_features track_ab (mt19937_seed 1798988130)))),
                 mean_valence = Finite (valence (fst (draw_features track_ab (mt19937_seed 1798988130)))),
                 mean_speechiness = Finite (speechiness (fst (draw_features track_ab (mt19937_seed 1798988130)))),
                 mean_acousticness = Finite (acousticness (fst (draw_features track_ab (mt19937_seed 1798988130)))),
                 mean_instrumentalness = Finite (instrumentalness (fst (draw_features track_ab (mt19937_seed 1798988130))))\<rparr>)"
    using t unfolding Let_def sample_unique_features sample_weighted_mean by (rule conjunct2)
  with add_audio_features_sample show ?thesis by (rule conjI)
qed

end
